theory Spec2Isabelle
  imports Main "HOL-Library.Sublist"
begin

section \<open>The result envelope of package result\<close>

text \<open>
  A shallow embedding of \<^verbatim>\<open>main.go\<close> (types and options), \<^verbatim>\<open>result.go\<close> (the envelope
  and its methods) and the generic wrapper's methods. Go strings are byte sequences and
  are modelled as \<open>string\<close>; a slice is a list, and the nil slice is the empty list.
  A method with a pointer receiver that ends in \<^verbatim>\<open>return *r\<close> yields a pair: the receiver
  after the call, and the copy it returns. A method without a result yields the receiver
  after the call. Receivers are never nil.
\<close>

subsection \<open>Collaborators outside the repository\<close>

text \<open>
  A value passed as \<^verbatim>\<open>interface{}\<close> to a variadic formatting argument: the nil interface,
  a string, or an error (carrying what its \<^verbatim>\<open>Error()\<close> method returns).
\<close>

datatype any = AnyNil | AnyString string | AnyError string

text \<open>A Go \<^verbatim>\<open>error\<close>: \<open>None\<close> is the nil error, \<open>Some m\<close> an error whose message is \<open>m\<close>.\<close>

type_synonym error = "string option"

definition error_any :: "error \<Rightarrow> any" where
  "error_any err = (case err of None \<Rightarrow> AnyNil | Some m \<Rightarrow> AnyError m)"

text \<open>
  Modelled from the spec: the message log of \<^verbatim>\<open>github.com/stdutil/log\<close> is not part of the
  repository. Section 6 of the specification requires severity tags Info, Warning, Error,
  Success and application/generic, notes that carry a message and a prefix, appending a
  severity-tagged note, appending a pre-built note, enumerating the notes in insertion
  order, and a mutable prefix. \<^verbatim>\<open>result.go\<close> itself builds a note from the fields
  \<^verbatim>\<open>Type\<close>, \<^verbatim>\<open>Message\<close> and \<^verbatim>\<open>Prefix\<close>.
\<close>

datatype LogType = Info | Warning | Error | Success | App

record LogInfo =
  note_Type :: LogType
  note_Message :: string
  note_Prefix :: string

record Log =
  log_Prefix :: string
  log_notes :: "LogInfo list"

definition Log_empty :: Log where
  "Log_empty = \<lparr>log_Prefix = [], log_notes = []\<rparr>"

definition Log_Notes :: "Log \<Rightarrow> LogInfo list" where
  "Log_Notes l = log_notes l"

definition Log_Append :: "Log \<Rightarrow> LogInfo \<Rightarrow> Log" where
  "Log_Append l n = l\<lparr>log_notes := log_notes l @ [n]\<rparr>"

definition Log_addNote :: "Log \<Rightarrow> LogType \<Rightarrow> string \<Rightarrow> Log" where
  "Log_addNote l t msg =
     Log_Append l \<lparr>note_Type = t, note_Message = msg, note_Prefix = log_Prefix l\<rparr>"

definition Log_AddInfo :: "Log \<Rightarrow> string \<Rightarrow> Log" where
  "Log_AddInfo l msg = Log_addNote l Info msg"

definition Log_AddWarning :: "Log \<Rightarrow> string \<Rightarrow> Log" where
  "Log_AddWarning l msg = Log_addNote l Warning msg"

definition Log_AddError :: "Log \<Rightarrow> string \<Rightarrow> Log" where
  "Log_AddError l msg = Log_addNote l Error msg"

definition Log_AddSuccess :: "Log \<Rightarrow> string \<Rightarrow> Log" where
  "Log_AddSuccess l msg = Log_addNote l Success msg"

definition Log_AddAppMsg :: "Log \<Rightarrow> string \<Rightarrow> Log" where
  "Log_AddAppMsg l msg = Log_addNote l App msg"

text \<open>
  What the code takes from its surroundings and is given here as a parameter: the
  operating system name (\<^verbatim>\<open>runtime.GOOS\<close>), the name of the calling function when
  \<^verbatim>\<open>runtime.Caller(1)\<close> and \<^verbatim>\<open>runtime.FuncForPC\<close> both succeed, \<^verbatim>\<open>strings.ToLower\<close>,
  \<^verbatim>\<open>fmt.Sprintf\<close>, and the two renderings of the message log, \<^verbatim>\<open>LogInfo.ToString\<close> and
  \<^verbatim>\<open>Log.ToString\<close>, whose formats the specification leaves open.
\<close>

record extern =
  GOOS :: string
  Caller :: "string option"
  ToLower :: "string \<Rightarrow> string"
  Sprintf :: "string \<Rightarrow> any list \<Rightarrow> string"
  LogInfo_ToString :: "LogInfo \<Rightarrow> string"
  Log_ToString :: "Log \<Rightarrow> string"

subsection \<open>Types of main.go\<close>

type_synonym Status = string

definition OK :: Status where "OK = ''OK''"
definition EXCEPTION :: Status where "EXCEPTION = ''EXCEPTION''"
definition VALID :: Status where "VALID = ''VALID''"
definition INVALID :: Status where "INVALID = ''INVALID''"
definition YES :: Status where "YES = ''YES''"
definition NO :: Status where "NO = ''NO''"

text \<open>
  \<^verbatim>\<open>FocusControl\<close> is a \<^verbatim>\<open>*string\<close> that the code writes through and that may point at
  the envelope's own field \<^verbatim>\<open>initFc\<close>, so string pointers are addresses into an explicit
  store: a cell of the heap, or the field \<^verbatim>\<open>initFc\<close> of the receiver. The other optional
  fields are never read or written by the code and are kept by value.
\<close>

datatype strptr = Cell nat | InitFcField

record heap =
  cells :: "nat \<Rightarrow> string"
  fresh :: nat

definition alloc :: "heap \<Rightarrow> string \<Rightarrow> heap \<times> strptr" where
  "alloc h v = (h\<lparr>cells := (cells h)(fresh h := v), fresh := Suc (fresh h)\<rparr>, Cell (fresh h))"

record Result =
  Messages :: "string list"
  Status :: string
  Operation :: string
  TaskID :: "string option"
  WorkerID :: "string option"
  FocusControl :: "strptr option"
  Page :: "int option"
  PageCount :: "int option"
  PageSize :: "int option"
  Tag :: "any option"
  Prefix :: string
  ln :: Log
  eventVerb :: string
  osIsWin :: bool
  useOperationInMsg :: bool
  initFc :: string

record 'a ResultAny =
  Result :: Result
  Data :: 'a

record InitResultParam =
  irp_EventVerb :: string
  irp_Status :: Status
  irp_Prefix :: string
  irp_Message :: string
  irp_InitialFocusID :: string
  irp_UseOperationInMsg :: bool

text \<open>
  An option is a function on the parameter struct (its error result is always nil and is
  never looked at); a nil option is \<open>None\<close>.
\<close>

type_synonym InitResultOption = "(InitResultParam \<Rightarrow> InitResultParam) option"

definition WithStatus :: "Status \<Rightarrow> InitResultOption" where
  "WithStatus status = Some (\<lambda>irp. irp\<lparr>irp_Status := status\<rparr>)"

definition WithPrefix :: "string \<Rightarrow> InitResultOption" where
  "WithPrefix pfx = Some (\<lambda>irp. irp\<lparr>irp_Prefix := pfx\<rparr>)"

definition WithMessage :: "string \<Rightarrow> InitResultOption" where
  "WithMessage msg = Some (\<lambda>irp. irp\<lparr>irp_Message := msg\<rparr>)"

definition WithFocusControl :: "string \<Rightarrow> InitResultOption" where
  "WithFocusControl focusId = Some (\<lambda>irp. irp\<lparr>irp_InitialFocusID := focusId\<rparr>)"

definition WithEventVerb :: "string \<Rightarrow> InitResultOption" where
  "WithEventVerb ev = Some (\<lambda>irp. irp\<lparr>irp_EventVerb := ev\<rparr>)"

definition UseOperationInMessage :: "bool \<Rightarrow> InitResultOption" where
  "UseOperationInMessage on = Some (\<lambda>irp. irp\<lparr>irp_UseOperationInMsg := on\<rparr>)"

subsection \<open>Methods of result.go\<close>

definition Return :: "Result \<Rightarrow> Status \<Rightarrow> Result \<times> Result" where
  "Return r status = (let r = r\<lparr>Status := status\<rparr> in (r, r))"

definition Result_OK :: "Result \<Rightarrow> bool" where
  "Result_OK r = (Status r = OK)"

definition Result_Error :: "Result \<Rightarrow> bool" where
  "Result_Error r = (Status r = EXCEPTION)"

definition Result_Valid :: "Result \<Rightarrow> bool" where
  "Result_Valid r = (Status r = VALID)"

definition Result_Invalid :: "Result \<Rightarrow> bool" where
  "Result_Invalid r = (Status r = INVALID)"

definition Result_Yes :: "Result \<Rightarrow> bool" where
  "Result_Yes r = (Status r = YES)"

definition Result_No :: "Result \<Rightarrow> bool" where
  "Result_No r = (Status r = NO)"

text \<open>Reading and writing through a string pointer held by the envelope \<open>r\<close>.\<close>

definition load :: "heap \<Rightarrow> Result \<Rightarrow> strptr \<Rightarrow> string" where
  "load h r p = (case p of Cell a \<Rightarrow> cells h a | InitFcField \<Rightarrow> initFc r)"

definition store :: "heap \<Rightarrow> Result \<Rightarrow> strptr \<Rightarrow> string \<Rightarrow> heap \<times> Result" where
  "store h r p v =
     (case p of Cell a \<Rightarrow> (h\<lparr>cells := (cells h)(a := v)\<rparr>, r)
      | InitFcField \<Rightarrow> (h, r\<lparr>initFc := v\<rparr>))"

text \<open>The string \<^verbatim>\<open>focus_control\<close> denotes, if the pointer is not nil.\<close>

definition focus_control :: "heap \<Rightarrow> Result \<Rightarrow> string option" where
  "focus_control h r = map_option (load h r) (FocusControl r)"

definition SetFocusControl :: "heap \<Rightarrow> Result \<Rightarrow> string \<Rightarrow> bool \<Rightarrow> heap \<times> Result" where
  "SetFocusControl h r ctrl appendOnly =
     (let (h, r) = (case FocusControl r of
                      None \<Rightarrow> (let (h, p) = alloc h [] in (h, r\<lparr>FocusControl := Some p\<rparr>))
                    | Some p \<Rightarrow> (h, r))
      in if \<not> appendOnly then
           (let r = r\<lparr>initFc := ctrl\<rparr>;
                (h, p) = alloc h ctrl
            in (h, r\<lparr>FocusControl := Some p\<rparr>))
         else
           (case FocusControl r of
              Some p \<Rightarrow> store h r p (initFc r @ ''_'' @ ctrl)
            | None \<Rightarrow> (h, r)))"

definition ResetFocusControl :: "Result \<Rightarrow> Result" where
  "ResetFocusControl r = r\<lparr>FocusControl := Some InitFcField\<rparr>"

text \<open>The zero value of the struct, from which \<^verbatim>\<open>InitResult\<close> builds its result.\<close>

definition Result_zero :: Result where
  "Result_zero =
     \<lparr>Messages = [], Status = [], Operation = [], TaskID = None, WorkerID = None,
      FocusControl = None, Page = None, PageCount = None, PageSize = None, Tag = None,
      Prefix = [], ln = Log_empty, eventVerb = [], osIsWin = False,
      useOperationInMsg = False, initFc = []\<rparr>"

definition InitResultParam_zero :: InitResultParam where
  "InitResultParam_zero =
     \<lparr>irp_EventVerb = [], irp_Status = [], irp_Prefix = [], irp_Message = [],
      irp_InitialFocusID = [], irp_UseOperationInMsg = False\<rparr>"

definition SetPrefix :: "Result \<Rightarrow> string \<Rightarrow> Result" where
  "SetPrefix r pfx = (let r = r\<lparr>ln := (ln r)\<lparr>log_Prefix := pfx\<rparr>\<rparr> in r\<lparr>Prefix := pfx\<rparr>)"

definition updateMessage :: "extern \<Rightarrow> Result \<Rightarrow> Result" where
  "updateMessage x r =
     (let nts = Log_Notes (ln r)
      in foldl (\<lambda>r n. r\<lparr>Messages := Messages r @ [LogInfo_ToString x n]\<rparr>)
           (r\<lparr>Messages := []\<rparr>) nts)"

definition AddInfo :: "extern \<Rightarrow> Result \<Rightarrow> string \<Rightarrow> any list \<Rightarrow> Result \<times> Result" where
  "AddInfo x r fmtMsg a =
     (let msg = fmtMsg;
          msg = (if length a > 0 then Sprintf x fmtMsg a else msg);
          msg = (if useOperationInMsg r \<and> Operation r \<noteq> []
                 then Sprintf x '' %s: '' [AnyString (Operation r)] @ msg else msg);
          r = r\<lparr>ln := Log_AddInfo (ln r) msg\<rparr>;
          r = updateMessage x r
      in (r, r))"

definition AddWarning :: "extern \<Rightarrow> Result \<Rightarrow> string \<Rightarrow> any list \<Rightarrow> Result \<times> Result" where
  "AddWarning x r fmtMsg a =
     (let msg = fmtMsg;
          msg = (if length a > 0 then Sprintf x fmtMsg a else msg);
          msg = (if useOperationInMsg r \<and> Operation r \<noteq> []
                 then Sprintf x '' %s: '' [AnyString (Operation r)] @ msg else msg);
          r = r\<lparr>ln := Log_AddWarning (ln r) msg\<rparr>;
          r = updateMessage x r
      in (r, r))"

definition AddError :: "extern \<Rightarrow> Result \<Rightarrow> string \<Rightarrow> any list \<Rightarrow> Result \<times> Result" where
  "AddError x r fmtMsg a =
     (let msg = fmtMsg;
          msg = (if length a > 0 then Sprintf x fmtMsg a else msg);
          msg = (if useOperationInMsg r \<and> Operation r \<noteq> []
                 then Sprintf x '' %s: '' [AnyString (Operation r)] @ msg else msg);
          r = r\<lparr>ln := Log_AddError (ln r) msg\<rparr>;
          r = updateMessage x r
      in (r, r))"

definition AddErr :: "extern \<Rightarrow> Result \<Rightarrow> error \<Rightarrow> Result \<times> Result" where
  "AddErr x r err = (let r = fst (AddError x r ''%s'' [error_any err]) in (r, r))"

definition AddSuccess :: "extern \<Rightarrow> Result \<Rightarrow> string \<Rightarrow> any list \<Rightarrow> Result \<times> Result" where
  "AddSuccess x r fmtMsg a =
     (let msg = fmtMsg;
          msg = (if length a > 0 then Sprintf x fmtMsg a else msg);
          msg = (if useOperationInMsg r \<and> Operation r \<noteq> []
                 then Sprintf x '' %s: '' [AnyString (Operation r)] @ msg else msg);
          r = r\<lparr>ln := Log_AddSuccess (ln r) msg\<rparr>;
          r = updateMessage x r
      in (r, r))"

definition AddRawMsg :: "extern \<Rightarrow> Result \<Rightarrow> string \<Rightarrow> any list \<Rightarrow> Result \<times> Result" where
  "AddRawMsg x r fmtMsg a =
     (let msg = fmtMsg;
          msg = (if length a > 0 then Sprintf x fmtMsg a else msg);
          r = r\<lparr>ln := Log_AddAppMsg (ln r) msg\<rparr>;
          r = updateMessage x r
      in (r, r))"

definition AddErrWithAlt ::
  "extern \<Rightarrow> Result \<Rightarrow> error \<Rightarrow> string \<Rightarrow> any list \<Rightarrow> Result \<times> Result" where
  "AddErrWithAlt x r err altMsg altMsgValues =
     (if err \<noteq> None then AddErr x r err
      else if altMsg \<noteq> [] then AddError x r altMsg altMsgValues
      else (r, r))"

definition AddErrorWithAlt ::
  "extern \<Rightarrow> Result \<Rightarrow> Result \<Rightarrow> string \<Rightarrow> any list \<Rightarrow> Result \<times> Result" where
  "AddErrorWithAlt x r rs altMsg altMsgValues =
     (if \<not> (Result_OK rs \<or> Result_Valid rs) then
        (let r = r\<lparr>ln := foldl Log_Append (ln r) (Log_Notes (ln rs))\<rparr>;
             r = updateMessage x r
         in (r, r))
      else if altMsg = [] then (r, r)
      else
        (let r = r\<lparr>ln := Log_Append (ln r)
                       \<lparr>note_Type = Error, note_Message = Sprintf x altMsg altMsgValues,
                        note_Prefix = log_Prefix (ln r)\<rparr>\<rparr>;
             r = updateMessage x r
         in (r, r)))"

definition AppendErr :: "extern \<Rightarrow> Result \<Rightarrow> Result \<Rightarrow> error \<Rightarrow> Result \<times> Result" where
  "AppendErr x r rs err =
     (let r = r\<lparr>ln := foldl Log_Append (ln r) (Log_Notes (ln rs))\<rparr>
      in AddErr x r err)"

definition AppendError ::
  "extern \<Rightarrow> Result \<Rightarrow> Result \<Rightarrow> string \<Rightarrow> any list \<Rightarrow> Result \<times> Result" where
  "AppendError x r rs fmtMsg a =
     (let r = r\<lparr>ln := foldl Log_Append (ln r) (Log_Notes (ln rs))\<rparr>
      in AddError x r fmtMsg a)"

definition AppendInfo ::
  "extern \<Rightarrow> Result \<Rightarrow> Result \<Rightarrow> string \<Rightarrow> any list \<Rightarrow> Result \<times> Result" where
  "AppendInfo x r rs fmtMsg a =
     (let r = r\<lparr>ln := foldl Log_Append (ln r) (Log_Notes (ln rs))\<rparr>
      in AddInfo x r fmtMsg a)"

definition AppendWarning ::
  "extern \<Rightarrow> Result \<Rightarrow> Result \<Rightarrow> string \<Rightarrow> any list \<Rightarrow> Result \<times> Result" where
  "AppendWarning x r rs fmtMsg a =
     (let r = r\<lparr>ln := foldl Log_Append (ln r) (Log_Notes (ln rs))\<rparr>
      in AddWarning x r fmtMsg a)"

definition Stuff :: "extern \<Rightarrow> Result \<Rightarrow> Result \<Rightarrow> Result \<times> Result" where
  "Stuff x r rs =
     (let r = r\<lparr>ln := foldl Log_Append (ln r) (Log_Notes (ln rs))\<rparr>;
          r = updateMessage x r
      in (r, r))"

definition MessagesToString :: "extern \<Rightarrow> Result \<Rightarrow> string" where
  "MessagesToString x r =
     (if length (Messages r) = 1 then hd (Messages r)
      else if length (Messages r) > 1 then
        (let lf = (if osIsWin r then [CHR 0x0D, CHR 0x0A] else [CHR 0x0A])
         in foldl (\<lambda>sb v. sb @ (v @ lf)) [] (Messages r))
      else Log_ToString x (ln r))"

text \<open>
  \<^verbatim>\<open>strings.LastIndex\<close> of the Go library: the index of the last occurrence of
  \<open>substr\<close> in \<open>s\<close>, or \<open>-1\<close>.
\<close>

primrec LastIndex_scan :: "string \<Rightarrow> string \<Rightarrow> nat \<Rightarrow> int \<Rightarrow> int" where
  "LastIndex_scan [] substr i found = (if substr = [] then int i else found)"
| "LastIndex_scan (c # cs) substr i found =
     LastIndex_scan cs substr (Suc i) (if prefix substr (c # cs) then int i else found)"

definition LastIndex :: "string \<Rightarrow> string \<Rightarrow> int" where
  "LastIndex s substr = LastIndex_scan s substr 0 (- 1)"

text \<open>The loop of \<^verbatim>\<open>InitResult\<close> over its options; a nil option is skipped.\<close>

definition applyOptions :: "InitResultOption list \<Rightarrow> InitResultParam" where
  "applyOptions opts =
     foldl (\<lambda>irp opt. case opt of None \<Rightarrow> irp | Some f \<Rightarrow> f irp) InitResultParam_zero opts"

text \<open>
  \<^verbatim>\<open>InitResult\<close> in three parts, in the order of the source: the block that detects the
  calling function, the block that routes the initial message, and the function itself.
\<close>

definition InitResult_detect :: "extern \<Rightarrow> Result \<Rightarrow> Result" where
  "InitResult_detect x res =
     (case Caller x of
        None \<Rightarrow> res
      | Some nm \<Rightarrow>
          (let pos = LastIndex nm ''.'';
               nm = (if pos \<noteq> - 1 then drop (nat (pos + 1)) nm else nm);
               res = res\<lparr>Operation := ToLower x nm\<rparr>
           in if eventVerb res = [] then res\<lparr>eventVerb := Operation res\<rparr> else res))"

definition InitResult_route :: "extern \<Rightarrow> InitResultParam \<Rightarrow> Result \<Rightarrow> Result" where
  "InitResult_route x irp res =
     (if irp_Message irp \<noteq> [] then
        (let msg = irp_Message irp;
             msg = (if irp_UseOperationInMsg irp \<and> Operation res \<noteq> []
                    then Sprintf x '' %s: %s''
                           [AnyString (Operation res), AnyString (irp_Message irp)]
                    else msg)
         in if irp_Status irp = OK \<or> irp_Status irp = VALID \<or> irp_Status irp = YES
            then fst (AddInfo x res ''%s'' [AnyString msg])
            else if irp_Status irp = EXCEPTION \<or> irp_Status irp = INVALID
                    \<or> irp_Status irp = NO
            then fst (AddError x res ''%s'' [AnyString msg])
            else res\<lparr>ln := Log_AddAppMsg (ln res) msg\<rparr>)
      else res)"

definition InitResult :: "extern \<Rightarrow> heap \<Rightarrow> InitResultOption list \<Rightarrow> heap \<times> Result" where
  "InitResult x h opts =
     (let res = Result_zero\<lparr>Status := EXCEPTION, ln := Log_empty,
                            osIsWin := (GOOS x = ''windows'')\<rparr>;
          res = res\<lparr>Messages := []\<rparr>;
          irp = applyOptions opts;
          res = (if irp_Status irp \<noteq> [] then res\<lparr>Status := irp_Status irp\<rparr> else res);
          res = SetPrefix res (irp_Prefix irp);
          res = res\<lparr>eventVerb := irp_EventVerb irp\<rparr>;
          res = res\<lparr>initFc := irp_InitialFocusID irp\<rparr>;
          (h, res) = SetFocusControl h res (initFc res) False;
          res = InitResult_detect x res;
          res = InitResult_route x irp res
      in (h, res))"

subsection \<open>Methods of the generic wrapper\<close>

definition ResultAny_AddInfo ::
  "extern \<Rightarrow> 'a ResultAny \<Rightarrow> string \<Rightarrow> any list \<Rightarrow> 'a ResultAny \<times> 'a ResultAny" where
  "ResultAny_AddInfo x r fmtMsg a =
     (let r = r\<lparr>Result := fst (AddInfo x (Result r) fmtMsg a)\<rparr>
      in (r, \<lparr>Result = Result r, Data = Data r\<rparr>))"

definition ResultAny_AddWarning ::
  "extern \<Rightarrow> 'a ResultAny \<Rightarrow> string \<Rightarrow> any list \<Rightarrow> 'a ResultAny \<times> 'a ResultAny" where
  "ResultAny_AddWarning x r fmtMsg a =
     (let r = r\<lparr>Result := fst (AddWarning x (Result r) fmtMsg a)\<rparr>
      in (r, \<lparr>Result = Result r, Data = Data r\<rparr>))"

definition ResultAny_AddError ::
  "extern \<Rightarrow> 'a ResultAny \<Rightarrow> string \<Rightarrow> any list \<Rightarrow> 'a ResultAny \<times> 'a ResultAny" where
  "ResultAny_AddError x r fmtMsg a =
     (let r = r\<lparr>Result := fst (AddError x (Result r) fmtMsg a)\<rparr>
      in (r, \<lparr>Result = Result r, Data = Data r\<rparr>))"

definition ResultAny_AddErr ::
  "extern \<Rightarrow> 'a ResultAny \<Rightarrow> error \<Rightarrow> 'a ResultAny \<times> 'a ResultAny" where
  "ResultAny_AddErr x r err =
     (let r = r\<lparr>Result := fst (AddErr x (Result r) err)\<rparr>
      in (r, \<lparr>Result = Result r, Data = Data r\<rparr>))"

definition ResultAny_AddSuccess ::
  "extern \<Rightarrow> 'a ResultAny \<Rightarrow> string \<Rightarrow> any list \<Rightarrow> 'a ResultAny \<times> 'a ResultAny" where
  "ResultAny_AddSuccess x r fmtMsg a =
     (let r = r\<lparr>Result := fst (AddSuccess x (Result r) fmtMsg a)\<rparr>
      in (r, \<lparr>Result = Result r, Data = Data r\<rparr>))"

definition ResultAny_Stuff ::
  "extern \<Rightarrow> 'a ResultAny \<Rightarrow> Result \<Rightarrow> 'a ResultAny \<times> 'a ResultAny" where
  "ResultAny_Stuff x r rs =
     (let r = r\<lparr>Result := fst (Stuff x (Result r) rs)\<rparr>
      in (r, \<lparr>Result = Result r, Data = Data r\<rparr>))"

definition ResultAny_AddErrWithAlt ::
  "extern \<Rightarrow> 'a ResultAny \<Rightarrow> error \<Rightarrow> string \<Rightarrow> any list
     \<Rightarrow> 'a ResultAny \<times> 'a ResultAny" where
  "ResultAny_AddErrWithAlt x r err altMsg altMsgValues =
     (let r = r\<lparr>Result := fst (AddErrWithAlt x (Result r) err altMsg altMsgValues)\<rparr>
      in (r, \<lparr>Result = Result r, Data = Data r\<rparr>))"

definition ResultAny_AddErrorWithAlt ::
  "extern \<Rightarrow> 'a ResultAny \<Rightarrow> Result \<Rightarrow> string \<Rightarrow> any list
     \<Rightarrow> 'a ResultAny \<times> 'a ResultAny" where
  "ResultAny_AddErrorWithAlt x r rs altMsg altMsgValues =
     (let r = r\<lparr>Result := fst (AddErrorWithAlt x (Result r) rs altMsg altMsgValues)\<rparr>
      in (r, \<lparr>Result = Result r, Data = Data r\<rparr>))"

definition ResultAny_Return ::
  "'a ResultAny \<Rightarrow> Status \<Rightarrow> 'a ResultAny \<times> 'a ResultAny" where
  "ResultAny_Return r status =
     (let r = r\<lparr>Result := fst (Return (Result r) status)\<rparr>
      in (r, \<lparr>Result = Result r, Data = Data r\<rparr>))"

subsection \<open>The earlier single-file variant of the package\<close>

text \<open>
  The repository also holds an earlier variant of the package in one file, with its own
  copy of the generic wrapper. Its \<^verbatim>\<open>AddInfo\<close>, \<^verbatim>\<open>AddWarning\<close>, \<^verbatim>\<open>AddError\<close> and
  \<^verbatim>\<open>AddSuccess\<close> always format and know no operation prefix, and its \<^verbatim>\<open>AddErr\<close> calls
  \<^verbatim>\<open>err.Error()\<close>, which on the nil interface is a run-time panic (a nil dereference):
  the panic is a value here, and a method that calls \<^verbatim>\<open>AddErr\<close> passes it on. \<^verbatim>\<open>Return\<close>,
  \<^verbatim>\<open>Stuff\<close>, \<^verbatim>\<open>AddErrorWithAlt\<close>, \<^verbatim>\<open>updateMessage\<close> and the wrapper methods over the first
  three read the same in both files, so their definitions above stand for both.
\<close>

datatype panic = NilDereference

definition AddError_early :: "extern \<Rightarrow> Result \<Rightarrow> string \<Rightarrow> any list \<Rightarrow> Result \<times> Result" where
  "AddError_early x r fmtMsg a =
     (let r = r\<lparr>ln := Log_AddError (ln r) (Sprintf x fmtMsg a)\<rparr>;
          r = updateMessage x r
      in (r, r))"

definition AddErr_early :: "extern \<Rightarrow> Result \<Rightarrow> error \<Rightarrow> panic + Result \<times> Result" where
  "AddErr_early x r err =
     (case err of
        None \<Rightarrow> Inl NilDereference
      | Some m \<Rightarrow> (let r = fst (AddError_early x r m []) in Inr (r, r)))"

definition AddInfo_early :: "extern \<Rightarrow> Result \<Rightarrow> string \<Rightarrow> any list \<Rightarrow> Result \<times> Result" where
  "AddInfo_early x r fmtMsg a =
     (let r = r\<lparr>ln := Log_AddInfo (ln r) (Sprintf x fmtMsg a)\<rparr>;
          r = updateMessage x r
      in (r, r))"

definition AddWarning_early :: "extern \<Rightarrow> Result \<Rightarrow> string \<Rightarrow> any list \<Rightarrow> Result \<times> Result" where
  "AddWarning_early x r fmtMsg a =
     (let r = r\<lparr>ln := Log_AddWarning (ln r) (Sprintf x fmtMsg a)\<rparr>;
          r = updateMessage x r
      in (r, r))"

definition AddSuccess_early :: "extern \<Rightarrow> Result \<Rightarrow> string \<Rightarrow> any list \<Rightarrow> Result \<times> Result" where
  "AddSuccess_early x r fmtMsg a =
     (let r = r\<lparr>ln := Log_AddSuccess (ln r) (Sprintf x fmtMsg a)\<rparr>;
          r = updateMessage x r
      in (r, r))"

definition AddErrWithAlt_early ::
  "extern \<Rightarrow> Result \<Rightarrow> error \<Rightarrow> string \<Rightarrow> any list \<Rightarrow> panic + Result \<times> Result" where
  "AddErrWithAlt_early x r err altMsg altMsgValues =
     (if err \<noteq> None then AddErr_early x r err
      else if altMsg \<noteq> [] then Inr (AddError_early x r altMsg altMsgValues)
      else Inr (r, r))"

definition ResultAny_AddInfo_early ::
  "extern \<Rightarrow> 'a ResultAny \<Rightarrow> string \<Rightarrow> any list \<Rightarrow> 'a ResultAny \<times> 'a ResultAny" where
  "ResultAny_AddInfo_early x r fmtMsg a =
     (let r = r\<lparr>Result := fst (AddInfo_early x (Result r) fmtMsg a)\<rparr>
      in (r, \<lparr>Result = Result r, Data = Data r\<rparr>))"

definition ResultAny_AddWarning_early ::
  "extern \<Rightarrow> 'a ResultAny \<Rightarrow> string \<Rightarrow> any list \<Rightarrow> 'a ResultAny \<times> 'a ResultAny" where
  "ResultAny_AddWarning_early x r fmtMsg a =
     (let r = r\<lparr>Result := fst (AddWarning_early x (Result r) fmtMsg a)\<rparr>
      in (r, \<lparr>Result = Result r, Data = Data r\<rparr>))"

definition ResultAny_AddError_early ::
  "extern \<Rightarrow> 'a ResultAny \<Rightarrow> string \<Rightarrow> any list \<Rightarrow> 'a ResultAny \<times> 'a ResultAny" where
  "ResultAny_AddError_early x r fmtMsg a =
     (let r = r\<lparr>Result := fst (AddError_early x (Result r) fmtMsg a)\<rparr>
      in (r, \<lparr>Result = Result r, Data = Data r\<rparr>))"

definition ResultAny_AddErr_early ::
  "extern \<Rightarrow> 'a ResultAny \<Rightarrow> error \<Rightarrow> panic + 'a ResultAny \<times> 'a ResultAny" where
  "ResultAny_AddErr_early x r err =
     (case AddErr_early x (Result r) err of
        Inl p \<Rightarrow> Inl p
      | Inr ret \<Rightarrow>
          (let r = r\<lparr>Result := fst ret\<rparr>
           in Inr (r, \<lparr>Result = Result r, Data = Data r\<rparr>)))"

definition ResultAny_AddSuccess_early ::
  "extern \<Rightarrow> 'a ResultAny \<Rightarrow> string \<Rightarrow> any list \<Rightarrow> 'a ResultAny \<times> 'a ResultAny" where
  "ResultAny_AddSuccess_early x r fmtMsg a =
     (let r = r\<lparr>Result := fst (AddSuccess_early x (Result r) fmtMsg a)\<rparr>
      in (r, \<lparr>Result = Result r, Data = Data r\<rparr>))"

definition ResultAny_AddErrWithAlt_early ::
  "extern \<Rightarrow> 'a ResultAny \<Rightarrow> error \<Rightarrow> string \<Rightarrow> any list
     \<Rightarrow> panic + 'a ResultAny \<times> 'a ResultAny" where
  "ResultAny_AddErrWithAlt_early x r err altMsg altMsgValues =
     (case AddErrWithAlt_early x (Result r) err altMsg altMsgValues of
        Inl p \<Rightarrow> Inl p
      | Inr ret \<Rightarrow>
          (let r = r\<lparr>Result := fst ret\<rparr>
           in Inr (r, \<lparr>Result = Result r, Data = Data r\<rparr>)))"

subsection \<open>Joining and splitting, as the specification speaks of them\<close>

text \<open>
  The specification describes \<^verbatim>\<open>MessagesToString\<close> by joining and re-splitting. These
  follow \<^verbatim>\<open>strings.Join\<close>, \<^verbatim>\<open>strings.Split\<close> and \<^verbatim>\<open>strings.Contains\<close> of the Go library;
  \<open>Split\<close> is only meant for a non-empty separator.
\<close>

fun Join :: "string list \<Rightarrow> string \<Rightarrow> string" where
  "Join [] sep = []"
| "Join [e] sep = e"
| "Join (e # e' # es) sep = e @ sep @ Join (e' # es) sep"

function Split_scan :: "string \<Rightarrow> string \<Rightarrow> string \<Rightarrow> string list" where
  "Split_scan sep acc [] = [acc]"
| "Split_scan sep acc (c # cs) =
     (if sep \<noteq> [] \<and> prefix sep (c # cs)
      then acc # Split_scan sep [] (drop (length sep) (c # cs))
      else Split_scan sep (acc @ [c]) cs)"
  by pat_completeness auto
termination
  by (relation "measure (\<lambda>(sep, acc, s). length s)") auto

definition Split :: "string \<Rightarrow> string \<Rightarrow> string list" where
  "Split s sep = Split_scan sep [] s"

fun Contains :: "string \<Rightarrow> string \<Rightarrow> bool" where
  "Contains [] substr = (substr = [])"
| "Contains (c # cs) substr = (prefix substr (c # cs) \<or> Contains cs substr)"

definition line_terminator :: "Result \<Rightarrow> string" where
  "line_terminator r = (if osIsWin r then [CHR 0x0D, CHR 0x0A] else [CHR 0x0A])"

text \<open>The cache invariant of the specification: the messages are the rendered log.\<close>

definition cache_in_sync :: "extern \<Rightarrow> Result \<Rightarrow> bool" where
  "cache_in_sync x r = (Messages r = map (LogInfo_ToString x) (Log_Notes (ln r)))"

subsection \<open>A concrete environment to run the model in\<close>

text \<open>
  A small formatter that knows the verb \<^verbatim>\<open>%s\<close> only and replaces each one by the next
  argument (for formats with as many such verbs as arguments), a lower-casing of ASCII
  letters, and renderings that print a note as its prefix and message and a log as its
  notes line by line. The sample envelopes below are built with them.
\<close>

definition any_text :: "any \<Rightarrow> string" where
  "any_text v =
     (case v of AnyNil \<Rightarrow> ''%!s(<nil>)'' | AnyString s \<Rightarrow> s | AnyError m \<Rightarrow> m)"

fun percent_s :: "string \<Rightarrow> any list \<Rightarrow> string" where
  "percent_s [] vs = []"
| "percent_s [c] vs = [c]"
| "percent_s (c # d # f) vs =
     (if c = CHR ''%'' \<and> d = CHR ''s'' then
        (case vs of [] \<Rightarrow> ''%!s(MISSING)'' @ percent_s f []
         | v # vs' \<Rightarrow> any_text v @ percent_s f vs')
      else c # percent_s (d # f) vs)"

definition ascii_lower :: "char \<Rightarrow> char" where
  "ascii_lower c =
     (case map_of (zip ''ABCDEFGHIJKLMNOPQRSTUVWXYZ'' ''abcdefghijklmnopqrstuvwxyz'') c of
        None \<Rightarrow> c | Some d \<Rightarrow> d)"

definition plain_note :: "LogInfo \<Rightarrow> string" where
  "plain_note n = note_Prefix n @ note_Message n"

definition plain_log :: "Log \<Rightarrow> string" where
  "plain_log l = concat (map (\<lambda>n. plain_note n @ [CHR 0x0A]) (log_notes l))"

definition linux_handler :: extern where
  "linux_handler =
     \<lparr>GOOS = ''linux'', Caller = Some ''main.Handler'', ToLower = map ascii_lower,
      Sprintf = percent_s, LogInfo_ToString = plain_note, Log_ToString = plain_log\<rparr>"

definition windows_handler :: extern where
  "windows_handler = linux_handler\<lparr>GOOS := ''windows''\<rparr>"

definition heap_empty :: heap where
  "heap_empty = \<lparr>cells = (\<lambda>a. []), fresh = 0\<rparr>"

definition two_notes :: Log where
  "two_notes =
     \<lparr>log_Prefix = ''db'', log_notes =
        [\<lparr>note_Type = Error, note_Message = ''no rows'', note_Prefix = ''db''\<rparr>,
         \<lparr>note_Type = Warning, note_Message = ''slow'', note_Prefix = ''db''\<rparr>]\<rparr>"

definition one_line :: Result where
  "one_line =
     fst (AddInfo linux_handler (snd (InitResult linux_handler heap_empty [])) ''saved'' [])"

definition two_lines :: Result where
  "two_lines =
     fst (AddInfo linux_handler
       (fst (AddInfo linux_handler (snd (InitResult linux_handler heap_empty [])) ''a'' []))
       ''b'' [])"

definition two_lines_windows :: Result where
  "two_lines_windows =
     fst (AddInfo windows_handler
       (fst (AddInfo windows_handler (snd (InitResult windows_handler heap_empty [])) ''a'' []))
       ''b'' [])"

text \<open>A wrapper around the zero envelope with a number as payload.\<close>

definition boxed :: "nat ResultAny" where
  "boxed = \<lparr>Result = Result_zero, Data = 42\<rparr>"

definition boxed_boom :: "nat ResultAny" where
  "boxed_boom =
     \<lparr>Result = fst (AddError_early linux_handler Result_zero ''boom'' []), Data = 42\<rparr>"

section \<open>Properties\<close>

subsection \<open>Loops as closed forms\<close>

lemma foldl_Messages_append:
  "foldl (\<lambda>r n. r\<lparr>Messages := Messages r @ [f n]\<rparr>) r ns = r\<lparr>Messages := Messages r @ map f ns\<rparr>"
  by (induction ns arbitrary: r) simp_all

lemma updateMessage_eq:
  "updateMessage x r = r\<lparr>Messages := map (LogInfo_ToString x) (Log_Notes (ln r))\<rparr>"
  by (simp add: updateMessage_def foldl_Messages_append)

lemma foldl_Log_Append:
  "foldl Log_Append l ns = l\<lparr>log_notes := log_notes l @ ns\<rparr>"
  by (induction ns arbitrary: l) (simp_all add: Log_Append_def)

lemmas log_defs = Log_AddInfo_def Log_AddWarning_def Log_AddError_def Log_AddSuccess_def
  Log_AddAppMsg_def Log_addNote_def Log_Append_def Log_Notes_def Log_empty_def

subsection \<open>What InitResult builds\<close>

lemma detect_frame:
  "ln (InitResult_detect x res) = ln res" "Messages (InitResult_detect x res) = Messages res"
  "Status (InitResult_detect x res) = Status res"
  "useOperationInMsg (InitResult_detect x res) = useOperationInMsg res"
  "osIsWin (InitResult_detect x res) = osIsWin res"
  by (simp_all add: InitResult_detect_def Let_def split: option.split)

lemma route_frame:
  "Status (InitResult_route x irp res) = Status res"
  "Operation (InitResult_route x irp res) = Operation res"
  "useOperationInMsg (InitResult_route x irp res) = useOperationInMsg res"
  "osIsWin (InitResult_route x irp res) = osIsWin res"
  by (simp_all add: InitResult_route_def AddInfo_def AddError_def updateMessage_eq Let_def)

lemma route_notes:
  "useOperationInMsg res = False \<Longrightarrow> Log_Notes (ln (InitResult_route x irp res)) = Log_Notes (ln res) @
     (let msg = (if irp_UseOperationInMsg irp \<and> Operation res \<noteq> []
                 then Sprintf x '' %s: %s'' [AnyString (Operation res), AnyString (irp_Message irp)]
                 else irp_Message irp)
      in if irp_Message irp = [] then []
         else if irp_Status irp = OK \<or> irp_Status irp = VALID \<or> irp_Status irp = YES
         then [\<lparr>note_Type = Info, note_Message = Sprintf x ''%s'' [AnyString msg],
                note_Prefix = log_Prefix (ln res)\<rparr>]
         else if irp_Status irp = EXCEPTION \<or> irp_Status irp = INVALID \<or> irp_Status irp = NO
         then [\<lparr>note_Type = Error, note_Message = Sprintf x ''%s'' [AnyString msg],
                note_Prefix = log_Prefix (ln res)\<rparr>]
         else [\<lparr>note_Type = App, note_Message = msg, note_Prefix = log_Prefix (ln res)\<rparr>])"
  by (simp add: InitResult_route_def AddInfo_def AddError_def updateMessage_eq log_defs Let_def)

lemma route_Messages:
  "Messages (InitResult_route x irp res) =
     (if irp_Message irp \<noteq> [] \<and>
            (irp_Status irp = OK \<or> irp_Status irp = VALID \<or> irp_Status irp = YES \<or>
             irp_Status irp = EXCEPTION \<or> irp_Status irp = INVALID \<or> irp_Status irp = NO)
         then map (LogInfo_ToString x) (Log_Notes (ln (InitResult_route x irp res)))
         else Messages res)"
  by (simp add: InitResult_route_def AddInfo_def AddError_def updateMessage_eq Let_def)

lemma SetFocusControl_False_frame:
  "ln (snd (SetFocusControl h r c False)) = ln r"
  "Messages (snd (SetFocusControl h r c False)) = Messages r"
  "Status (snd (SetFocusControl h r c False)) = Status r"
  "useOperationInMsg (snd (SetFocusControl h r c False)) = useOperationInMsg r"
  "osIsWin (snd (SetFocusControl h r c False)) = osIsWin r"
  by (simp_all add: SetFocusControl_def alloc_def Let_def split: option.split)

lemma InitResult_stages:
  "\<exists>pre. snd (InitResult x h opts) = InitResult_route x (applyOptions opts) pre
     \<and> Log_Notes (ln pre) = [] \<and> log_Prefix (ln pre) = irp_Prefix (applyOptions opts)
     \<and> Messages pre = [] \<and> useOperationInMsg pre = False
     \<and> osIsWin pre = (GOOS x = ''windows'')
     \<and> Status pre = (if irp_Status (applyOptions opts) \<noteq> []
                      then irp_Status (applyOptions opts) else EXCEPTION)"
  apply (simp only: InitResult_def Let_def split_beta snd_conv)
  apply (intro exI conjI, rule refl)
  apply (simp_all add: detect_frame SetFocusControl_False_frame Result_zero_def SetPrefix_def
      Log_empty_def Log_Notes_def)
  done

lemma InitResult_Status:
  "Status (snd (InitResult x h opts)) =
     (if irp_Status (applyOptions opts) \<noteq> [] then irp_Status (applyOptions opts) else EXCEPTION)"
  using InitResult_stages [of x h opts] by (auto simp: route_frame)

lemma InitResult_useOperationInMsg:
  "useOperationInMsg (snd (InitResult x h opts)) = False"
  using InitResult_stages [of x h opts] by (auto simp: route_frame)

lemma InitResult_osIsWin:
  "osIsWin (snd (InitResult x h opts)) = (GOOS x = ''windows'')"
  using InitResult_stages [of x h opts] by (auto simp: route_frame)

lemma InitResult_notes:
  "Log_Notes (ln (snd (InitResult x h opts))) =
     (let irp = applyOptions opts;
          op = Operation (snd (InitResult x h opts));
          msg = (if irp_UseOperationInMsg irp \<and> op \<noteq> []
                 then Sprintf x '' %s: %s'' [AnyString op, AnyString (irp_Message irp)]
                 else irp_Message irp)
      in if irp_Message irp = [] then []
         else if irp_Status irp = OK \<or> irp_Status irp = VALID \<or> irp_Status irp = YES
         then [\<lparr>note_Type = Info, note_Message = Sprintf x ''%s'' [AnyString msg],
                note_Prefix = irp_Prefix irp\<rparr>]
         else if irp_Status irp = EXCEPTION \<or> irp_Status irp = INVALID \<or> irp_Status irp = NO
         then [\<lparr>note_Type = Error, note_Message = Sprintf x ''%s'' [AnyString msg],
                note_Prefix = irp_Prefix irp\<rparr>]
         else [\<lparr>note_Type = App, note_Message = msg, note_Prefix = irp_Prefix irp\<rparr>])"
proof -
  obtain pre where pre: "snd (InitResult x h opts) = InitResult_route x (applyOptions opts) pre"
    "Log_Notes (ln pre) = []" "log_Prefix (ln pre) = irp_Prefix (applyOptions opts)"
    "useOperationInMsg pre = False"
    using InitResult_stages [of x h opts] by blast
  show ?thesis
    unfolding pre(1) route_frame route_notes [OF pre(4)] pre(2) pre(3) by (simp add: Let_def)
qed

lemma InitResult_Messages:
  "Messages (snd (InitResult x h opts)) =
     (if irp_Message (applyOptions opts) \<noteq> [] \<and>
            (irp_Status (applyOptions opts) = OK \<or> irp_Status (applyOptions opts) = VALID \<or> irp_Status (applyOptions opts) = YES \<or>
             irp_Status (applyOptions opts) = EXCEPTION \<or> irp_Status (applyOptions opts) = INVALID \<or> irp_Status (applyOptions opts) = NO)
         then map (LogInfo_ToString x) (Log_Notes (ln (snd (InitResult x h opts))))
         else [])"
proof -
  obtain pre where pre: "snd (InitResult x h opts) = InitResult_route x (applyOptions opts) pre"
    "Messages pre = []"
    using InitResult_stages [of x h opts] by blast
  show ?thesis
    unfolding pre(1) using route_Messages [of x "applyOptions opts" pre] pre(2) by simp
qed

lemma applyOptions_WithMessage: "applyOptions [WithMessage m] = InitResultParam_zero\<lparr>irp_Message := m\<rparr>"
  by (simp add: applyOptions_def WithMessage_def)

lemmas status_defs = OK_def EXCEPTION_def VALID_def INVALID_def YES_def NO_def

lemma detect_Operation:
  "Operation (InitResult_detect x res) =
     (case Caller x of None \<Rightarrow> Operation res
      | Some nm \<Rightarrow> ToLower x (if LastIndex nm ''.'' \<noteq> - 1
                               then drop (nat (LastIndex nm ''.'' + 1)) nm else nm))"
  by (simp add: InitResult_detect_def Let_def split: option.split)

lemma SetFocusControl_False_Operation:
  "Operation (snd (SetFocusControl h r c False)) = Operation r"
  by (simp add: SetFocusControl_def alloc_def Let_def split: option.split)

lemma InitResult_Operation:
  "Operation (snd (InitResult x h opts)) = Operation (InitResult_detect x Result_zero)"
  by (simp add: InitResult_def Let_def split_beta route_frame detect_Operation
      SetFocusControl_False_Operation SetPrefix_def Result_zero_def split: option.split)

lemma route_log_Prefix:
  "log_Prefix (ln (InitResult_route x irp res)) = log_Prefix (ln res)"
  by (simp add: InitResult_route_def AddInfo_def AddError_def updateMessage_eq log_defs Let_def)

lemma InitResult_log_Prefix:
  "log_Prefix (ln (snd (InitResult x h opts))) = irp_Prefix (applyOptions opts)"
  using InitResult_stages [of x h opts] by (auto simp: route_log_Prefix)

lemma Operation_linux_handler:
  "Operation (InitResult_detect linux_handler Result_zero) = ''handler''"
  by (simp add: detect_Operation linux_handler_def LastIndex_def ascii_lower_def)

lemma Operation_windows_handler:
  "Operation (InitResult_detect windows_handler Result_zero) = ''handler''"
  by (simp add: detect_Operation windows_handler_def linux_handler_def LastIndex_def ascii_lower_def)

subsection \<open>What the Add methods append\<close>

lemma add_notes:
  "Log_Notes (ln (fst (AddInfo x r f a))) = Log_Notes (ln r) @
     [\<lparr>note_Type = Info, note_Message =
        (if useOperationInMsg r \<and> Operation r \<noteq> []
         then Sprintf x '' %s: '' [AnyString (Operation r)] else [])
        @ (if a = [] then f else Sprintf x f a), note_Prefix = log_Prefix (ln r)\<rparr>]"
  "Log_Notes (ln (fst (AddWarning x r f a))) = Log_Notes (ln r) @
     [\<lparr>note_Type = Warning, note_Message =
        (if useOperationInMsg r \<and> Operation r \<noteq> []
         then Sprintf x '' %s: '' [AnyString (Operation r)] else [])
        @ (if a = [] then f else Sprintf x f a), note_Prefix = log_Prefix (ln r)\<rparr>]"
  "Log_Notes (ln (fst (AddError x r f a))) = Log_Notes (ln r) @
     [\<lparr>note_Type = Error, note_Message =
        (if useOperationInMsg r \<and> Operation r \<noteq> []
         then Sprintf x '' %s: '' [AnyString (Operation r)] else [])
        @ (if a = [] then f else Sprintf x f a), note_Prefix = log_Prefix (ln r)\<rparr>]"
  "Log_Notes (ln (fst (AddSuccess x r f a))) = Log_Notes (ln r) @
     [\<lparr>note_Type = Success, note_Message =
        (if useOperationInMsg r \<and> Operation r \<noteq> []
         then Sprintf x '' %s: '' [AnyString (Operation r)] else [])
        @ (if a = [] then f else Sprintf x f a), note_Prefix = log_Prefix (ln r)\<rparr>]"
  "Log_Notes (ln (fst (AddRawMsg x r f a))) = Log_Notes (ln r) @
     [\<lparr>note_Type = App, note_Message = (if a = [] then f else Sprintf x f a),
       note_Prefix = log_Prefix (ln r)\<rparr>]"
  by (simp_all add: AddInfo_def AddWarning_def AddError_def AddSuccess_def AddRawMsg_def
      log_defs updateMessage_eq Let_def)

lemma add_in_sync:
  "cache_in_sync x (fst (AddInfo x r f a))" "cache_in_sync x (fst (AddWarning x r f a))"
  "cache_in_sync x (fst (AddError x r f a))" "cache_in_sync x (fst (AddSuccess x r f a))"
  "cache_in_sync x (fst (AddRawMsg x r f a))"
  by (simp_all add: cache_in_sync_def AddInfo_def AddWarning_def AddError_def AddSuccess_def
      AddRawMsg_def updateMessage_eq Let_def)

lemma applyOptions_UseOperationInMessage:
  "applyOptions [UseOperationInMessage b] = InitResultParam_zero\<lparr>irp_UseOperationInMsg := b\<rparr>"
  by (simp add: applyOptions_def UseOperationInMessage_def)

lemma applyOptions_three:
  "applyOptions [WithStatus s, WithMessage msg, UseOperationInMessage b] =
     InitResultParam_zero\<lparr>irp_Status := s, irp_Message := msg, irp_UseOperationInMsg := b\<rparr>"
  by (simp add: applyOptions_def WithStatus_def WithMessage_def UseOperationInMessage_def)

lemma applyOptions_Nil: "applyOptions [] = InitResultParam_zero"
  by (simp add: applyOptions_def)

lemma InitResult_OK_saved:
  assumes status: "irp_Status (applyOptions opts) = OK"
    and message: "irp_Message (applyOptions opts) = ''saved''"
    and m: "m = (if irp_UseOperationInMsg (applyOptions opts)
                    \<and> Operation (snd (InitResult x h opts)) \<noteq> []
                 then '' '' @ Operation (snd (InitResult x h opts)) @ '': saved''
                 else ''saved'')"
    and fmt_prefix: "Sprintf x '' %s: %s''
                       [AnyString (Operation (snd (InitResult x h opts))), AnyString ''saved'']
                     = '' '' @ Operation (snd (InitResult x h opts)) @ '': saved''"
    and fmt_s: "Sprintf x ''%s'' [AnyString m] = m"
  shows "Status (snd (InitResult x h opts)) = OK
         \<and> Log_Notes (ln (snd (InitResult x h opts))) =
             [\<lparr>note_Type = Info, note_Message = m,
               note_Prefix = irp_Prefix (applyOptions opts)\<rparr>]
         \<and> Messages (snd (InitResult x h opts)) =
             [LogInfo_ToString x \<lparr>note_Type = Info, note_Message = m,
                note_Prefix = irp_Prefix (applyOptions opts)\<rparr>]"
proof -
  have routed: "(if irp_UseOperationInMsg (applyOptions opts)
                    \<and> Operation (snd (InitResult x h opts)) \<noteq> []
                 then Sprintf x '' %s: %s''
                        [AnyString (Operation (snd (InitResult x h opts))),
                         AnyString (irp_Message (applyOptions opts))]
                 else irp_Message (applyOptions opts)) = m"
    using m fmt_prefix message by simp
  have log: "Log_Notes (ln (snd (InitResult x h opts))) =
             [\<lparr>note_Type = Info, note_Message = m,
               note_Prefix = irp_Prefix (applyOptions opts)\<rparr>]"
    unfolding InitResult_notes [of x h opts] Let_def routed
    using status message fmt_s by simp
  have msgs: "Messages (snd (InitResult x h opts)) =
             [LogInfo_ToString x \<lparr>note_Type = Info, note_Message = m,
                note_Prefix = irp_Prefix (applyOptions opts)\<rparr>]"
    unfolding InitResult_Messages [of x h opts] log using status message by simp
  have st: "Status (snd (InitResult x h opts)) = OK"
    using status by (simp add: InitResult_Status OK_def)
  show ?thesis
    using log msgs st by simp
qed

lemma applyOptions_two:
  "applyOptions [WithStatus s, WithMessage msg] =
     InitResultParam_zero\<lparr>irp_Status := s, irp_Message := msg\<rparr>"
  by (simp add: applyOptions_def WithStatus_def WithMessage_def)

subsection \<open>Terminated lines, joining and splitting\<close>

lemma foldl_terminated:
  "foldl (\<lambda>sb v. sb @ (v @ lf)) acc ms = acc @ concat (map (\<lambda>v. v @ lf) ms)"
  by (induction ms arbitrary: acc) simp_all

lemma terminated_Join:
  "ms \<noteq> [] \<Longrightarrow> concat (map (\<lambda>v. v @ lf) ms) = Join ms lf @ lf"
  by (induction ms lf rule: Join.induct) simp_all

text \<open>
  A separator of one byte, or of two different bytes, cannot straddle the end of a piece
  that does not contain it.
\<close>

lemma no_straddle:
  assumes sep: "sep = [a] \<or> (sep = [a, b] \<and> a \<noteq> b)"
    and "\<not> prefix sep (c # cs)"
  shows "\<not> prefix sep (c # cs @ sep @ rest)"
  using assms by (cases cs) auto

lemma Split_scan_piece:
  assumes sep: "sep = [a] \<or> (sep = [a, b] \<and> a \<noteq> b)"
    and clean: "\<not> Contains v sep"
  shows "Split_scan sep acc (v @ sep @ rest) = (acc @ v) # Split_scan sep [] rest"
  using clean
proof (induction v arbitrary: acc)
  case Nil
  from sep show ?case by auto
next
  case (Cons c cs)
  then have here: "\<not> prefix sep (c # cs)" and later: "\<not> Contains cs sep"
    by simp_all
  from no_straddle [OF sep here] have "\<not> prefix sep (c # cs @ sep @ rest)" .
  then have "Split_scan sep acc ((c # cs) @ sep @ rest)
      = Split_scan sep (acc @ [c]) (cs @ sep @ rest)"
    by simp
  also have "\<dots> = ((acc @ [c]) @ cs) # Split_scan sep [] rest"
    by (rule Cons.IH [OF later])
  finally show ?case by simp
qed

lemma Split_scan_clean:
  "\<not> Contains v sep \<Longrightarrow> Split_scan sep acc v = [acc @ v]"
  by (induction v arbitrary: acc) auto

lemma Split_terminated:
  assumes sep: "sep = [a] \<or> (sep = [a, b] \<and> a \<noteq> b)"
    and clean: "\<forall>m\<in>set ms. \<not> Contains m sep"
  shows "Split_scan sep [] (concat (map (\<lambda>v. v @ sep) ms)) = ms @ [[]]"
  using clean
proof (induction ms)
  case Nil
  show ?case by simp
next
  case (Cons m ms)
  then have "\<not> Contains m sep" by simp
  from Split_scan_piece [OF sep this, of "[]" "concat (map (\<lambda>v. v @ sep) ms)"] Cons
  show ?case by simp
qed

lemma line_terminator_shape:
  "line_terminator r = [CHR 0x0A] \<or>
   (line_terminator r = [CHR 0x0D, CHR 0x0A] \<and> CHR 0x0D \<noteq> CHR 0x0A)"
  by (simp add: line_terminator_def)

lemma MessagesToString_one: "Messages r = [m] \<Longrightarrow> MessagesToString x r = m"
  by (simp add: MessagesToString_def)

lemma MessagesToString_many:
  "1 < length (Messages r) \<Longrightarrow>
     MessagesToString x r = concat (map (\<lambda>v. v @ line_terminator r) (Messages r))"
  by (simp add: MessagesToString_def foldl_terminated line_terminator_def Let_def)

lemma MessagesToString_none: "Messages r = [] \<Longrightarrow> MessagesToString x r = Log_ToString x (ln r)"
  by (simp add: MessagesToString_def)

subsection \<open>Running the model on the sample envelopes\<close>

lemma add_frame:
  "osIsWin (fst (AddInfo x r f a)) = osIsWin r"
  "useOperationInMsg (fst (AddInfo x r f a)) = useOperationInMsg r"
  "Operation (fst (AddInfo x r f a)) = Operation r"
  "log_Prefix (ln (fst (AddInfo x r f a))) = log_Prefix (ln r)"
  by (simp_all add: AddInfo_def updateMessage_eq log_defs Let_def)

lemma AddInfo_Messages:
  "Messages (fst (AddInfo x r f a)) = map (LogInfo_ToString x) (Log_Notes (ln (fst (AddInfo x r f a))))"
  using add_in_sync(1) [of x r f a] by (simp add: cache_in_sync_def)

lemma sample_render:
  "LogInfo_ToString linux_handler = plain_note" "Log_ToString linux_handler = plain_log"
  "LogInfo_ToString windows_handler = plain_note" "GOOS linux_handler = ''linux''"
  "GOOS windows_handler = ''windows''"
  by (simp_all add: linux_handler_def windows_handler_def)

lemma one_line_eval:
  "Messages one_line = [''saved'']" "line_terminator one_line = [CHR 0x0A]"
  by (simp_all add: one_line_def AddInfo_Messages add_notes add_frame InitResult_notes
      InitResult_useOperationInMsg InitResult_log_Prefix InitResult_osIsWin applyOptions_Nil
      InitResultParam_zero_def sample_render plain_note_def line_terminator_def)

lemma two_lines_eval:
  "Messages two_lines = [''a'', ''b'']" "line_terminator two_lines = [CHR 0x0A]"
  "osIsWin two_lines = False"
  by (simp_all add: two_lines_def AddInfo_Messages add_notes add_frame InitResult_notes
      InitResult_useOperationInMsg InitResult_log_Prefix InitResult_osIsWin applyOptions_Nil
      InitResultParam_zero_def sample_render plain_note_def line_terminator_def)

lemma two_lines_windows_eval:
  "Messages two_lines_windows = [''a'', ''b'']"
  "line_terminator two_lines_windows = [CHR 0x0D, CHR 0x0A]"
  by (simp_all add: two_lines_windows_def AddInfo_Messages add_notes add_frame InitResult_notes
      InitResult_useOperationInMsg InitResult_log_Prefix InitResult_osIsWin applyOptions_Nil
      InitResultParam_zero_def sample_render plain_note_def line_terminator_def)

lemma two_lines_string:
  "MessagesToString linux_handler two_lines = [CHR ''a'', CHR 0x0A, CHR ''b'', CHR 0x0A]"
  by (simp add: MessagesToString_def two_lines_eval)

subsection \<open>Methods that keep the cache in step with the log\<close>

lemma compose_in_sync:
  "cache_in_sync x (fst (AddErr x r err))"
  "cache_in_sync x (fst (AppendErr x r rs err))"
  "cache_in_sync x (fst (AppendError x r rs f a))"
  "cache_in_sync x (fst (AppendInfo x r rs f a))"
  "cache_in_sync x (fst (AppendWarning x r rs f a))"
  "cache_in_sync x (fst (Stuff x r rs))"
  by (simp_all add: AddErr_def AppendErr_def AppendError_def AppendInfo_def AppendWarning_def
      Stuff_def add_in_sync Let_def)
    (simp add: cache_in_sync_def updateMessage_eq)

lemma AddErrWithAlt_in_sync:
  "cache_in_sync x r \<Longrightarrow> cache_in_sync x (fst (AddErrWithAlt x r err altMsg vals))"
  by (simp add: AddErrWithAlt_def add_in_sync compose_in_sync)

lemma AddErrorWithAlt_in_sync:
  "cache_in_sync x r \<Longrightarrow> cache_in_sync x (fst (AddErrorWithAlt x r rs altMsg vals))"
  by (simp add: AddErrorWithAlt_def cache_in_sync_def updateMessage_eq Let_def)

lemma in_sync_length:
  "cache_in_sync x r \<Longrightarrow> length (Messages r) = length (Log_Notes (ln r))"
  by (simp add: cache_in_sync_def)

subsection \<open>When the earlier variant returns\<close>

lemma AddErr_early_returns:
  "(AddErr_early x r err = Inl NilDereference) = (err = None)"
  "AddErr_early x r (Some m) = Inr (fst (AddError_early x r m []), fst (AddError_early x r m []))"
  by (simp_all add: AddErr_early_def Let_def split: option.split)

lemma AddErrWithAlt_early_returns:
  "AddErrWithAlt_early x r err altMsg vals \<noteq> Inl p"
  by (cases err) (simp_all add: AddErrWithAlt_early_def AddErr_early_def Let_def)

subsection \<open>The claims\<close>

text \<open>
  C1. After every mutating operation on an envelope, the cached \<^verbatim>\<open>Messages\<close> equal the
  rendered message log, entry for entry. The constructor breaks this: with an initial
  message and a configured status outside the six constants (here: none configured), it
  appends the note to the log directly and does not refresh the cache, so the log holds
  one note and \<^verbatim>\<open>Messages\<close> is empty.
\<close>

theorem C1_cache_stale_after_InitResult:
  "Messages (snd (InitResult x h [WithMessage ''hi''])) = []
   \<and> Log_Notes (ln (snd (InitResult x h [WithMessage ''hi''])))
       = [\<lparr>note_Type = App, note_Message = ''hi'', note_Prefix = []\<rparr>]
   \<and> \<not> cache_in_sync x (snd (InitResult x h [WithMessage ''hi'']))"
  by (simp add: cache_in_sync_def InitResult_Messages InitResult_notes applyOptions_WithMessage
       InitResultParam_zero_def status_defs)

text \<open>
  C2. For \<^verbatim>\<open>AddInfo\<close>, \<^verbatim>\<open>AddWarning\<close>, \<^verbatim>\<open>AddError\<close> and \<^verbatim>\<open>AddSuccess\<close>: an envelope
  constructed with \<^verbatim>\<open>UseOperationInMessage(true)\<close> and a non-empty operation name stores
  the message with \<^verbatim>\<open>" <operation>: "\<close> prepended. The constructor never copies the option
  into the envelope's field \<^verbatim>\<open>useOperationInMsg\<close> (see \<open>InitResult_useOperationInMsg\<close>), so
  an envelope built by a function named \<^verbatim>\<open>Handler\<close> with the option on has operation
  \<^verbatim>\<open>handler\<close> and still stores \<^verbatim>\<open>hello\<close> unprefixed.
\<close>

theorem C2_operation_prefix_never_added:
  "Operation (snd (InitResult linux_handler heap_empty [UseOperationInMessage True])) = ''handler''
   \<and> Log_Notes (ln (fst (AddInfo linux_handler
          (snd (InitResult linux_handler heap_empty [UseOperationInMessage True])) ''hello'' [])))
       = [\<lparr>note_Type = Info, note_Message = ''hello'', note_Prefix = []\<rparr>]
   \<and> Log_Notes (ln (fst (AddWarning linux_handler
          (snd (InitResult linux_handler heap_empty [UseOperationInMessage True])) ''hello'' [])))
       = [\<lparr>note_Type = Warning, note_Message = ''hello'', note_Prefix = []\<rparr>]
   \<and> Log_Notes (ln (fst (AddError linux_handler
          (snd (InitResult linux_handler heap_empty [UseOperationInMessage True])) ''hello'' [])))
       = [\<lparr>note_Type = Error, note_Message = ''hello'', note_Prefix = []\<rparr>]
   \<and> Log_Notes (ln (fst (AddSuccess linux_handler
          (snd (InitResult linux_handler heap_empty [UseOperationInMessage True])) ''hello'' [])))
       = [\<lparr>note_Type = Success, note_Message = ''hello'', note_Prefix = []\<rparr>]"
  by (simp add: add_notes InitResult_useOperationInMsg InitResult_notes InitResult_Operation
      Operation_linux_handler applyOptions_UseOperationInMessage InitResultParam_zero_def
      InitResult_log_Prefix)

text \<open>
  C3. When \<^verbatim>\<open>InitResult\<close> is given a non-empty initial message, it adds exactly one note to
  the log, routed by the configured status: \<^verbatim>\<open>OK\<close>, \<^verbatim>\<open>VALID\<close> or \<^verbatim>\<open>YES\<close> give an Info note,
  \<^verbatim>\<open>EXCEPTION\<close>, \<^verbatim>\<open>INVALID\<close> or \<^verbatim>\<open>NO\<close> an Error note, any other value a plain application
  note; and when the option to use the operation is set and an operation name was
  detected, the message is prefixed with \<^verbatim>\<open>" <operation>: "\<close> before it is routed. The two
  hypotheses on \<^verbatim>\<open>fmt.Sprintf\<close> say what the \<^verbatim>\<open>%s\<close> verb does with a string.
\<close>

theorem C3_initial_message_routing:
  assumes irp: "irp = applyOptions opts"
    and res: "res = snd (InitResult x h opts)"
    and message: "irp_Message irp \<noteq> []"
    and m: "m = (if irp_UseOperationInMsg irp \<and> Operation res \<noteq> []
                 then '' '' @ Operation res @ '': '' @ irp_Message irp
                 else irp_Message irp)"
    and fmt_prefix: "Sprintf x '' %s: %s'' [AnyString (Operation res), AnyString (irp_Message irp)]
                       = '' '' @ Operation res @ '': '' @ irp_Message irp"
    and fmt_s: "Sprintf x ''%s'' [AnyString m] = m"
  shows "Log_Notes (ln res) =
           [\<lparr>note_Type =
               (if irp_Status irp = OK \<or> irp_Status irp = VALID \<or> irp_Status irp = YES
                then Info
                else if irp_Status irp = EXCEPTION \<or> irp_Status irp = INVALID
                        \<or> irp_Status irp = NO
                then Error else App),
              note_Message = m, note_Prefix = irp_Prefix irp\<rparr>]"
proof -
  have routed: "(if irp_UseOperationInMsg irp \<and> Operation res \<noteq> []
                 then Sprintf x '' %s: %s'' [AnyString (Operation res), AnyString (irp_Message irp)]
                 else irp_Message irp) = m"
    using m fmt_prefix by simp
  have "Log_Notes (ln res) =
     (if irp_Status irp = OK \<or> irp_Status irp = VALID \<or> irp_Status irp = YES
         then [\<lparr>note_Type = Info, note_Message = Sprintf x ''%s'' [AnyString m],
                note_Prefix = irp_Prefix irp\<rparr>]
         else if irp_Status irp = EXCEPTION \<or> irp_Status irp = INVALID \<or> irp_Status irp = NO
         then [\<lparr>note_Type = Error, note_Message = Sprintf x ''%s'' [AnyString m],
                note_Prefix = irp_Prefix irp\<rparr>]
         else [\<lparr>note_Type = App, note_Message = m, note_Prefix = irp_Prefix irp\<rparr>])"
    unfolding res InitResult_notes [of x h opts]
    using message routed unfolding irp res by (simp add: Let_def)
  then show ?thesis
    using fmt_s by simp
qed

theorem C3_initial_message_routing_witness:
  "irp_Message (applyOptions [WithStatus NO, WithMessage ''denied'', UseOperationInMessage True]) \<noteq> []
   \<and> Sprintf linux_handler '' %s: %s'' [AnyString ''handler'', AnyString ''denied'']
       = '' handler: denied''
   \<and> Sprintf linux_handler ''%s'' [AnyString '' handler: denied''] = '' handler: denied''
   \<and> Log_Notes (ln (snd (InitResult linux_handler heap_empty
         [WithStatus NO, WithMessage ''denied'', UseOperationInMessage True])))
       = [\<lparr>note_Type = Error, note_Message = '' handler: denied'', note_Prefix = []\<rparr>]"
proof -
  let ?opts = "[WithStatus NO, WithMessage ''denied'', UseOperationInMessage True]"
  have op: "Operation (snd (InitResult linux_handler heap_empty ?opts)) = ''handler''"
    by (simp add: InitResult_Operation Operation_linux_handler)
  have message: "irp_Message (applyOptions ?opts) \<noteq> []"
    by (simp add: applyOptions_three)
  have f1: "Sprintf linux_handler '' %s: %s'' [AnyString ''handler'', AnyString ''denied'']
       = '' handler: denied''"
    by (simp add: linux_handler_def any_text_def)
  have f2: "Sprintf linux_handler ''%s'' [AnyString '' handler: denied''] = '' handler: denied''"
    by (simp add: linux_handler_def any_text_def)
  have m: "'' handler: denied'' =
      (if irp_UseOperationInMsg (applyOptions ?opts)
          \<and> Operation (snd (InitResult linux_handler heap_empty ?opts)) \<noteq> []
       then '' '' @ Operation (snd (InitResult linux_handler heap_empty ?opts)) @ '': ''
              @ irp_Message (applyOptions ?opts)
       else irp_Message (applyOptions ?opts))"
    by (simp add: op applyOptions_three)
  have f1': "Sprintf linux_handler '' %s: %s''
        [AnyString (Operation (snd (InitResult linux_handler heap_empty ?opts))),
         AnyString (irp_Message (applyOptions ?opts))]
      = '' '' @ Operation (snd (InitResult linux_handler heap_empty ?opts)) @ '': ''
          @ irp_Message (applyOptions ?opts)"
    using f1 by (simp add: op applyOptions_three)
  have "Log_Notes (ln (snd (InitResult linux_handler heap_empty ?opts)))
       = [\<lparr>note_Type = Error, note_Message = '' handler: denied'', note_Prefix = []\<rparr>]"
    using C3_initial_message_routing [OF refl refl message m f1' f2]
    by (simp add: applyOptions_three InitResultParam_zero_def status_defs)
  with message f1 f2 show ?thesis by simp
qed

text \<open>
  C4. \<^verbatim>\<open>AddErrorWithAlt(other, altMsg, altArgs)\<close>: when \<open>other\<close> is not in a success/valid
  state (neither \<^verbatim>\<open>OK()\<close> nor \<^verbatim>\<open>Valid()\<close> holds of it), the receiver's log gains exactly the
  notes of \<open>other\<close>, in order, and nothing else; when \<open>other\<close> is in such a state and
  \<open>altMsg\<close> is non-empty, the receiver gains exactly one Error note formatted from
  \<open>altMsg\<close> and \<open>altArgs\<close>, with no operation prefix whatever the receiver's flag; when
  \<open>other\<close> is in such a state and \<open>altMsg\<close> is empty, the receiver is unchanged.
\<close>

theorem C4_AddErrorWithAlt_branches:
  "(\<not> (Result_OK rs \<or> Result_Valid rs) \<longrightarrow>
      Log_Notes (ln (fst (AddErrorWithAlt x r rs altMsg altMsgValues)))
        = Log_Notes (ln r) @ Log_Notes (ln rs)
      \<and> length (Log_Notes (ln (fst (AddErrorWithAlt x r rs altMsg altMsgValues))))
        = length (Log_Notes (ln r)) + length (Log_Notes (ln rs)))
   \<and> ((Result_OK rs \<or> Result_Valid rs) \<and> altMsg \<noteq> [] \<longrightarrow>
      Log_Notes (ln (fst (AddErrorWithAlt x r rs altMsg altMsgValues)))
        = Log_Notes (ln r) @
          [\<lparr>note_Type = Error, note_Message = Sprintf x altMsg altMsgValues,
            note_Prefix = log_Prefix (ln r)\<rparr>])
   \<and> ((Result_OK rs \<or> Result_Valid rs) \<and> altMsg = [] \<longrightarrow>
      fst (AddErrorWithAlt x r rs altMsg altMsgValues) = r)
   \<and> snd (AddErrorWithAlt x r rs altMsg altMsgValues)
        = fst (AddErrorWithAlt x r rs altMsg altMsgValues)"
  by (simp add: AddErrorWithAlt_def updateMessage_eq foldl_Log_Append log_defs Let_def)

theorem C4_AddErrorWithAlt_branches_witness:
  "\<not> (Result_OK (Result_zero\<lparr>Status := NO, ln := two_notes\<rparr>)
        \<or> Result_Valid (Result_zero\<lparr>Status := NO, ln := two_notes\<rparr>))
   \<and> Log_Notes (ln (fst (AddErrorWithAlt linux_handler
         (Result_zero\<lparr>Operation := ''handler'', useOperationInMsg := True\<rparr>)
         (Result_zero\<lparr>Status := NO, ln := two_notes\<rparr>) ''failed'' [])))
       = log_notes two_notes
   \<and> Result_OK (Result_zero\<lparr>Status := OK, ln := two_notes\<rparr>)
   \<and> Log_Notes (ln (fst (AddErrorWithAlt linux_handler
         (Result_zero\<lparr>Operation := ''handler'', useOperationInMsg := True\<rparr>)
         (Result_zero\<lparr>Status := OK, ln := two_notes\<rparr>) ''failed: %s'' [AnyString ''x''])))
       = [\<lparr>note_Type = Error, note_Message = ''failed: x'', note_Prefix = []\<rparr>]
   \<and> fst (AddErrorWithAlt linux_handler
         (Result_zero\<lparr>Operation := ''handler'', useOperationInMsg := True\<rparr>)
         (Result_zero\<lparr>Status := OK, ln := two_notes\<rparr>) [] [])
       = Result_zero\<lparr>Operation := ''handler'', useOperationInMsg := True\<rparr>"
proof -
  let ?r = "Result_zero\<lparr>Operation := ''handler'', useOperationInMsg := True\<rparr>"
  let ?bad = "Result_zero\<lparr>Status := NO, ln := two_notes\<rparr>"
  let ?good = "Result_zero\<lparr>Status := OK, ln := two_notes\<rparr>"
  have bad: "\<not> (Result_OK ?bad \<or> Result_Valid ?bad)"
    by (simp add: Result_OK_def Result_Valid_def status_defs)
  have good: "Result_OK ?good"
    by (simp add: Result_OK_def)
  have empty: "Log_Notes (ln ?r) = []" "log_Prefix (ln ?r) = []"
    by (simp_all add: Result_zero_def log_defs)
  have fmt: "Sprintf linux_handler ''failed: %s'' [AnyString ''x''] = ''failed: x''"
    by (simp add: linux_handler_def any_text_def)
  have copied: "Log_Notes (ln ?bad) = log_notes two_notes"
    by (simp add: log_defs)
  show ?thesis
    using C4_AddErrorWithAlt_branches [of ?bad linux_handler ?r "''failed''" "[]"]
      C4_AddErrorWithAlt_branches [of ?good linux_handler ?r "''failed: %s''" "[AnyString ''x'']"]
      C4_AddErrorWithAlt_branches [of ?good linux_handler ?r "[]" "[]"]
      bad good
    unfolding empty fmt copied by simp
qed

text \<open>
  C5 (as amended). When the cached \<^verbatim>\<open>Messages\<close> hold exactly one entry,
  \<^verbatim>\<open>MessagesToString()\<close> returns that entry as it is; when they hold two or more, it
  returns every entry followed by the line terminator (CRLF when the envelope was
  constructed on Windows, LF otherwise), that is the join of the entries plus one
  trailing terminator; when \<^verbatim>\<open>Messages\<close> is empty, it returns the log's own string
  rendering. Provided no entry contains the terminator, splitting the returned string on
  the terminator gives back \<^verbatim>\<open>Messages\<close> for one entry, and \<^verbatim>\<open>Messages\<close> followed by one empty
  string for two or more.
\<close>

theorem C5_MessagesToString_terminated:
  "(Messages r = [m] \<longrightarrow>
      MessagesToString x r = m
      \<and> (\<not> Contains m (line_terminator r) \<longrightarrow>
           Split (MessagesToString x r) (line_terminator r) = Messages r))
   \<and> (1 < length (Messages r) \<longrightarrow>
      MessagesToString x r = Join (Messages r) (line_terminator r) @ line_terminator r
      \<and> ((\<forall>m\<in>set (Messages r). \<not> Contains m (line_terminator r)) \<longrightarrow>
           Split (MessagesToString x r) (line_terminator r) = Messages r @ [[]]))
   \<and> (Messages r = [] \<longrightarrow> MessagesToString x r = Log_ToString x (ln r))
   \<and> line_terminator (snd (InitResult x' h opts))
       = (if GOOS x' = ''windows'' then [CHR 0x0D, CHR 0x0A] else [CHR 0x0A])"
proof (intro conjI impI)
  assume "Messages r = [m]"
  then show "MessagesToString x r = m" by (rule MessagesToString_one)
next
  assume one: "Messages r = [m]" and clean: "\<not> Contains m (line_terminator r)"
  show "Split (MessagesToString x r) (line_terminator r) = Messages r"
    using Split_scan_clean [OF clean, of "[]"] one
    by (simp add: Split_def MessagesToString_one)
next
  assume many: "1 < length (Messages r)"
  then have "Messages r \<noteq> []" by auto
  then show "MessagesToString x r = Join (Messages r) (line_terminator r) @ line_terminator r"
    using many by (simp add: MessagesToString_many terminated_Join)
next
  assume many: "1 < length (Messages r)"
    and clean: "\<forall>m\<in>set (Messages r). \<not> Contains m (line_terminator r)"
  from line_terminator_shape [of r]
  have "Split_scan (line_terminator r) []
          (concat (map (\<lambda>v. v @ line_terminator r) (Messages r))) = Messages r @ [[]]"
  proof
    assume "line_terminator r = [CHR 0x0A]"
    then have "line_terminator r = [CHR 0x0A] \<or> (line_terminator r = [CHR 0x0A, CHR 0x0A] \<and> CHR 0x0A \<noteq> CHR 0x0A)"
      by simp
    from Split_terminated [OF this clean] show ?thesis .
  next
    assume "line_terminator r = [CHR 0x0D, CHR 0x0A] \<and> CHR 0x0D \<noteq> CHR 0x0A"
    then have "line_terminator r = [CHR 0x0D] \<or> (line_terminator r = [CHR 0x0D, CHR 0x0A] \<and> CHR 0x0D \<noteq> CHR 0x0A)"
      by simp
    from Split_terminated [OF this clean] show ?thesis .
  qed
  then show "Split (MessagesToString x r) (line_terminator r) = Messages r @ [[]]"
    using many by (simp add: Split_def MessagesToString_many)
next
  assume "Messages r = []"
  then show "MessagesToString x r = Log_ToString x (ln r)" by (rule MessagesToString_none)
next
  show "line_terminator (snd (InitResult x' h opts))
       = (if GOOS x' = ''windows'' then [CHR 0x0D, CHR 0x0A] else [CHR 0x0A])"
    by (simp add: line_terminator_def InitResult_osIsWin)
qed

theorem C5_MessagesToString_terminated_witness:
  "Messages one_line = [''saved'']
   \<and> \<not> Contains ''saved'' (line_terminator one_line)
   \<and> MessagesToString linux_handler one_line = ''saved''
   \<and> Split (MessagesToString linux_handler one_line) (line_terminator one_line) = [''saved'']
   \<and> 1 < length (Messages two_lines_windows)
   \<and> \<not> Contains ''a'' (line_terminator two_lines_windows)
   \<and> \<not> Contains ''b'' (line_terminator two_lines_windows)
   \<and> MessagesToString windows_handler two_lines_windows
        = [CHR ''a'', CHR 0x0D, CHR 0x0A, CHR ''b'', CHR 0x0D, CHR 0x0A]
   \<and> Split (MessagesToString windows_handler two_lines_windows)
        (line_terminator two_lines_windows) = [''a'', ''b'', []]
   \<and> Messages (snd (InitResult linux_handler heap_empty [])) = []
   \<and> MessagesToString linux_handler (snd (InitResult linux_handler heap_empty [])) = []
   \<and> line_terminator (snd (InitResult windows_handler heap_empty []))
        = [CHR 0x0D, CHR 0x0A]"
proof -
  have none: "Messages (snd (InitResult linux_handler heap_empty [])) = []"
    "Log_Notes (ln (snd (InitResult linux_handler heap_empty []))) = []"
    by (simp_all add: InitResult_Messages InitResult_notes applyOptions_Nil
        InitResultParam_zero_def)
  have rendered: "Log_ToString linux_handler (ln (snd (InitResult linux_handler heap_empty []))) = []"
    using none(2) by (simp add: sample_render plain_log_def Log_Notes_def)
  have clean1: "\<not> Contains ''saved'' (line_terminator one_line)"
    by (simp add: one_line_eval)
  have clean2: "\<forall>m\<in>set (Messages two_lines_windows).
      \<not> Contains m (line_terminator two_lines_windows)"
    by (simp add: two_lines_windows_eval)
  have many: "1 < length (Messages two_lines_windows)"
    by (simp add: two_lines_windows_eval)
  show ?thesis
    using C5_MessagesToString_terminated
        [of one_line "''saved''" linux_handler windows_handler heap_empty "[]"]
      C5_MessagesToString_terminated
        [of two_lines_windows "[]" windows_handler windows_handler heap_empty "[]"]
      C5_MessagesToString_terminated
        [of "snd (InitResult linux_handler heap_empty [])" "[]" linux_handler windows_handler
          heap_empty "[]"]
      clean1 clean2 many none(1) rendered
    by (simp add: one_line_eval two_lines_windows_eval sample_render Split_def)
qed

text \<open>
  The claim as first stated, a join whose re-splitting recovers \<^verbatim>\<open>Messages\<close>, fails for the
  envelope built by adding the messages \<^verbatim>\<open>a\<close> and \<^verbatim>\<open>b\<close>.
\<close>

theorem C5_joined_and_resplit_counterexample:
  "Messages two_lines = [''a'', ''b'']
   \<and> MessagesToString linux_handler two_lines = [CHR ''a'', CHR 0x0A, CHR ''b'', CHR 0x0A]
   \<and> Join (Messages two_lines) (line_terminator two_lines) = [CHR ''a'', CHR 0x0A, CHR ''b'']
   \<and> MessagesToString linux_handler two_lines
        \<noteq> Join (Messages two_lines) (line_terminator two_lines)
   \<and> Split (MessagesToString linux_handler two_lines) (line_terminator two_lines)
        = [''a'', ''b'', []]
   \<and> Split (MessagesToString linux_handler two_lines) (line_terminator two_lines)
        \<noteq> Messages two_lines"
  by (simp add: two_lines_string two_lines_eval Split_def)

text \<open>
  C6. For every envelope, \<^verbatim>\<open>SetFocusControl("x", false)\<close> followed by
  \<^verbatim>\<open>SetFocusControl("y", true)\<close> leaves \<^verbatim>\<open>focus_control\<close> equal to \<^verbatim>\<open>"x_y"\<close> while the stored
  initial anchor is still \<^verbatim>\<open>"x"\<close>, and \<^verbatim>\<open>ResetFocusControl()\<close> after that restores
  \<^verbatim>\<open>focus_control\<close> to \<^verbatim>\<open>"x"\<close>.
\<close>

theorem C6_focus_control_append_reset:
  "(let (h1, r1) = SetFocusControl h r ''x'' False;
        (h2, r2) = SetFocusControl h1 r1 ''y'' True;
        r3 = ResetFocusControl r2
    in focus_control h2 r2 = Some ''x_y'' \<and> initFc r2 = ''x''
       \<and> focus_control h2 r3 = Some ''x'' \<and> initFc r3 = ''x'')"
  by (simp add: SetFocusControl_def ResetFocusControl_def focus_control_def alloc_def
      load_def store_def Let_def split: option.split)

text \<open>
  C7. \<^verbatim>\<open>InitResult\<close> with no options yields status \<^verbatim>\<open>EXCEPTION\<close> and no messages; in
  general the initial status is the configured one when that is non-empty and
  \<^verbatim>\<open>EXCEPTION\<close> otherwise; and constructing with status \<^verbatim>\<open>OK\<close> and message \<^verbatim>\<open>saved\<close> yields
  exactly one Info note whose message is \<^verbatim>\<open>saved\<close>, prefixed with the operation when the
  option asks for it and an operation was detected.
\<close>

theorem C7_initial_status_and_message:
  "Status (snd (InitResult x h [])) = EXCEPTION
   \<and> Messages (snd (InitResult x h [])) = []
   \<and> Log_Notes (ln (snd (InitResult x h []))) = []
   \<and> Status (snd (InitResult x h opts')) =
       (if irp_Status (applyOptions opts') \<noteq> [] then irp_Status (applyOptions opts')
        else EXCEPTION)
   \<and> (irp_Status (applyOptions opts) = OK
        \<and> irp_Message (applyOptions opts) = ''saved''
        \<and> m = (if irp_UseOperationInMsg (applyOptions opts)
                    \<and> Operation (snd (InitResult x h opts)) \<noteq> []
                 then '' '' @ Operation (snd (InitResult x h opts)) @ '': saved''
                 else ''saved'')
        \<and> Sprintf x '' %s: %s''
              [AnyString (Operation (snd (InitResult x h opts))), AnyString ''saved'']
            = '' '' @ Operation (snd (InitResult x h opts)) @ '': saved''
        \<and> Sprintf x ''%s'' [AnyString m] = m
      \<longrightarrow> Status (snd (InitResult x h opts)) = OK
          \<and> Log_Notes (ln (snd (InitResult x h opts))) =
              [\<lparr>note_Type = Info, note_Message = m,
                note_Prefix = irp_Prefix (applyOptions opts)\<rparr>]
          \<and> Messages (snd (InitResult x h opts)) =
              [LogInfo_ToString x \<lparr>note_Type = Info, note_Message = m,
                 note_Prefix = irp_Prefix (applyOptions opts)\<rparr>])"
proof -
  have none: "Status (snd (InitResult x h [])) = EXCEPTION
      \<and> Messages (snd (InitResult x h [])) = [] \<and> Log_Notes (ln (snd (InitResult x h []))) = []"
    by (simp add: InitResult_Status InitResult_Messages InitResult_notes applyOptions_Nil
        InitResultParam_zero_def)
  have general: "Status (snd (InitResult x h opts')) =
       (if irp_Status (applyOptions opts') \<noteq> [] then irp_Status (applyOptions opts')
        else EXCEPTION)"
    by (rule InitResult_Status)
  from none general InitResult_OK_saved [of opts m x h] show ?thesis
    by blast
qed

theorem C7_initial_status_and_message_witness:
  "irp_Status (applyOptions [WithStatus OK, WithMessage ''saved'']) = OK
   \<and> irp_Message (applyOptions [WithStatus OK, WithMessage ''saved'']) = ''saved''
   \<and> Sprintf linux_handler ''%s'' [AnyString ''saved''] = ''saved''
   \<and> Status (snd (InitResult linux_handler heap_empty [])) = EXCEPTION
   \<and> Messages (snd (InitResult linux_handler heap_empty [])) = []
   \<and> Status (snd (InitResult linux_handler heap_empty [WithStatus OK, WithMessage ''saved''])) = OK
   \<and> Log_Notes (ln (snd (InitResult linux_handler heap_empty
         [WithStatus OK, WithMessage ''saved''])))
       = [\<lparr>note_Type = Info, note_Message = ''saved'', note_Prefix = []\<rparr>]
   \<and> Messages (snd (InitResult linux_handler heap_empty [WithStatus OK, WithMessage ''saved'']))
       = [''saved'']"
proof -
  let ?opts = "[WithStatus OK, WithMessage ''saved'']"
  have op: "Operation (snd (InitResult linux_handler heap_empty ?opts)) = ''handler''"
    by (simp add: InitResult_Operation Operation_linux_handler)
  have status: "irp_Status (applyOptions ?opts) = OK"
    and message: "irp_Message (applyOptions ?opts) = ''saved''"
    by (simp_all add: applyOptions_two)
  have m: "''saved'' = (if irp_UseOperationInMsg (applyOptions ?opts)
                    \<and> Operation (snd (InitResult linux_handler heap_empty ?opts)) \<noteq> []
                 then '' '' @ Operation (snd (InitResult linux_handler heap_empty ?opts))
                        @ '': saved''
                 else ''saved'')"
    by (simp add: applyOptions_two InitResultParam_zero_def)
  have f1: "Sprintf linux_handler '' %s: %s''
        [AnyString (Operation (snd (InitResult linux_handler heap_empty ?opts))),
         AnyString ''saved'']
      = '' '' @ Operation (snd (InitResult linux_handler heap_empty ?opts)) @ '': saved''"
    by (simp add: op linux_handler_def any_text_def)
  have f2: "Sprintf linux_handler ''%s'' [AnyString ''saved''] = ''saved''"
    by (simp add: linux_handler_def any_text_def)
  have pfx: "irp_Prefix (applyOptions ?opts) = []"
    by (simp add: applyOptions_two InitResultParam_zero_def)
  have render: "LogInfo_ToString linux_handler
      \<lparr>note_Type = Info, note_Message = ''saved'', note_Prefix = []\<rparr> = ''saved''"
    by (simp add: linux_handler_def plain_note_def)
  show ?thesis
    using C7_initial_status_and_message
      [of linux_handler heap_empty "[]" ?opts "''saved''"] status message m f1 f2
    unfolding pfx render by simp
qed

text \<open>
  C8. For every envelope, \<^verbatim>\<open>AddErr\<close> with a nil error never crashes. The \<^verbatim>\<open>AddErr\<close> of
  \<^verbatim>\<open>result.go\<close> hands the nil value to the formatter and appends one Error note, but the
  \<^verbatim>\<open>AddErr\<close> of the earlier variant calls \<^verbatim>\<open>err.Error()\<close> on it and panics.
\<close>

theorem C8_AddErr_nil_panics_in_early_variant:
  "AddErr_early x r None = Inl NilDereference
   \<and> Log_Notes (ln (fst (AddErr x r None))) = Log_Notes (ln r) @
       [\<lparr>note_Type = Error,
         note_Message = (if useOperationInMsg r \<and> Operation r \<noteq> []
                         then Sprintf x '' %s: '' [AnyString (Operation r)] else [])
                        @ Sprintf x ''%s'' [AnyNil],
         note_Prefix = log_Prefix (ln r)\<rparr>]"
  by (simp add: AddErr_early_def AddErr_def add_notes error_any_def Let_def)

text \<open>
  C9. Every mutator of the generic wrapper (\<^verbatim>\<open>AddInfo\<close>, \<^verbatim>\<open>AddWarning\<close>, \<^verbatim>\<open>AddError\<close>,
  \<^verbatim>\<open>AddErr\<close>, \<^verbatim>\<open>AddSuccess\<close>, \<^verbatim>\<open>Stuff\<close>, \<^verbatim>\<open>AddErrWithAlt\<close>, \<^verbatim>\<open>AddErrorWithAlt\<close>, \<^verbatim>\<open>Return\<close>)
  delegates to the embedded envelope and returns a wrapper whose \<^verbatim>\<open>Data\<close> is the
  receiver's; the receiver's own \<^verbatim>\<open>Data\<close> is untouched, and the envelope of the result is
  what the delegated method leaves, which does not depend on the payload. This holds of
  both copies of the wrapper. In the earlier copy \<^verbatim>\<open>AddErr\<close> and \<^verbatim>\<open>AddErrWithAlt\<close> delegate to
  a method that can panic, so for them the property is about every call that returns:
  \<^verbatim>\<open>AddErr\<close> returns exactly when the error is not nil, \<^verbatim>\<open>AddErrWithAlt\<close> always.
\<close>

theorem C9_wrapper_keeps_payload:
  "Data (snd (ResultAny_AddInfo x w f a)) = Data w
   \<and> Data (fst (ResultAny_AddInfo x w f a)) = Data w
   \<and> Result (snd (ResultAny_AddInfo x w f a)) = fst (AddInfo x (Result w) f a)
   \<and> Data (snd (ResultAny_AddWarning x w f a)) = Data w
   \<and> Data (fst (ResultAny_AddWarning x w f a)) = Data w
   \<and> Result (snd (ResultAny_AddWarning x w f a)) = fst (AddWarning x (Result w) f a)
   \<and> Data (snd (ResultAny_AddError x w f a)) = Data w
   \<and> Data (fst (ResultAny_AddError x w f a)) = Data w
   \<and> Result (snd (ResultAny_AddError x w f a)) = fst (AddError x (Result w) f a)
   \<and> Data (snd (ResultAny_AddErr x w err)) = Data w
   \<and> Data (fst (ResultAny_AddErr x w err)) = Data w
   \<and> Result (snd (ResultAny_AddErr x w err)) = fst (AddErr x (Result w) err)
   \<and> Data (snd (ResultAny_AddSuccess x w f a)) = Data w
   \<and> Data (fst (ResultAny_AddSuccess x w f a)) = Data w
   \<and> Result (snd (ResultAny_AddSuccess x w f a)) = fst (AddSuccess x (Result w) f a)
   \<and> Data (snd (ResultAny_Stuff x w rs)) = Data w
   \<and> Data (fst (ResultAny_Stuff x w rs)) = Data w
   \<and> Result (snd (ResultAny_Stuff x w rs)) = fst (Stuff x (Result w) rs)
   \<and> Data (snd (ResultAny_AddErrWithAlt x w err alt vals)) = Data w
   \<and> Data (fst (ResultAny_AddErrWithAlt x w err alt vals)) = Data w
   \<and> Result (snd (ResultAny_AddErrWithAlt x w err alt vals))
        = fst (AddErrWithAlt x (Result w) err alt vals)
   \<and> Data (snd (ResultAny_AddErrorWithAlt x w rs alt vals)) = Data w
   \<and> Data (fst (ResultAny_AddErrorWithAlt x w rs alt vals)) = Data w
   \<and> Result (snd (ResultAny_AddErrorWithAlt x w rs alt vals))
        = fst (AddErrorWithAlt x (Result w) rs alt vals)
   \<and> Data (snd (ResultAny_Return w s)) = Data w
   \<and> Data (fst (ResultAny_Return w s)) = Data w
   \<and> Result (snd (ResultAny_Return w s)) = fst (Return (Result w) s)
   \<and> Data (snd (ResultAny_AddInfo_early x w f a)) = Data w
   \<and> Data (fst (ResultAny_AddInfo_early x w f a)) = Data w
   \<and> Result (snd (ResultAny_AddInfo_early x w f a)) = fst (AddInfo_early x (Result w) f a)
   \<and> Data (snd (ResultAny_AddWarning_early x w f a)) = Data w
   \<and> Data (fst (ResultAny_AddWarning_early x w f a)) = Data w
   \<and> Result (snd (ResultAny_AddWarning_early x w f a))
        = fst (AddWarning_early x (Result w) f a)
   \<and> Data (snd (ResultAny_AddError_early x w f a)) = Data w
   \<and> Data (fst (ResultAny_AddError_early x w f a)) = Data w
   \<and> Result (snd (ResultAny_AddError_early x w f a)) = fst (AddError_early x (Result w) f a)
   \<and> Data (snd (ResultAny_AddSuccess_early x w f a)) = Data w
   \<and> Data (fst (ResultAny_AddSuccess_early x w f a)) = Data w
   \<and> Result (snd (ResultAny_AddSuccess_early x w f a))
        = fst (AddSuccess_early x (Result w) f a)
   \<and> (ResultAny_AddErr_early x w err = Inr (w1, w2) \<longrightarrow>
        Data w1 = Data w \<and> Data w2 = Data w
        \<and> AddErr_early x (Result w) err = Inr (Result w1, Result w1)
        \<and> Result w2 = Result w1)
   \<and> (ResultAny_AddErr_early x w err = Inl NilDereference) = (err = None)
   \<and> (ResultAny_AddErrWithAlt_early x w err alt vals = Inr (w1, w2) \<longrightarrow>
        Data w1 = Data w \<and> Data w2 = Data w
        \<and> AddErrWithAlt_early x (Result w) err alt vals = Inr (Result w1, Result w1)
        \<and> Result w2 = Result w1)
   \<and> ResultAny_AddErrWithAlt_early x w err alt vals \<noteq> Inl NilDereference"
proof -
  have later: "Data (snd (ResultAny_AddInfo x w f a)) = Data w
   \<and> Data (fst (ResultAny_AddInfo x w f a)) = Data w
   \<and> Result (snd (ResultAny_AddInfo x w f a)) = fst (AddInfo x (Result w) f a)
   \<and> Data (snd (ResultAny_AddWarning x w f a)) = Data w
   \<and> Data (fst (ResultAny_AddWarning x w f a)) = Data w
   \<and> Result (snd (ResultAny_AddWarning x w f a)) = fst (AddWarning x (Result w) f a)
   \<and> Data (snd (ResultAny_AddError x w f a)) = Data w
   \<and> Data (fst (ResultAny_AddError x w f a)) = Data w
   \<and> Result (snd (ResultAny_AddError x w f a)) = fst (AddError x (Result w) f a)
   \<and> Data (snd (ResultAny_AddErr x w err)) = Data w
   \<and> Data (fst (ResultAny_AddErr x w err)) = Data w
   \<and> Result (snd (ResultAny_AddErr x w err)) = fst (AddErr x (Result w) err)
   \<and> Data (snd (ResultAny_AddSuccess x w f a)) = Data w
   \<and> Data (fst (ResultAny_AddSuccess x w f a)) = Data w
   \<and> Result (snd (ResultAny_AddSuccess x w f a)) = fst (AddSuccess x (Result w) f a)
   \<and> Data (snd (ResultAny_Stuff x w rs)) = Data w
   \<and> Data (fst (ResultAny_Stuff x w rs)) = Data w
   \<and> Result (snd (ResultAny_Stuff x w rs)) = fst (Stuff x (Result w) rs)
   \<and> Data (snd (ResultAny_AddErrWithAlt x w err alt vals)) = Data w
   \<and> Data (fst (ResultAny_AddErrWithAlt x w err alt vals)) = Data w
   \<and> Result (snd (ResultAny_AddErrWithAlt x w err alt vals))
        = fst (AddErrWithAlt x (Result w) err alt vals)
   \<and> Data (snd (ResultAny_AddErrorWithAlt x w rs alt vals)) = Data w
   \<and> Data (fst (ResultAny_AddErrorWithAlt x w rs alt vals)) = Data w
   \<and> Result (snd (ResultAny_AddErrorWithAlt x w rs alt vals))
        = fst (AddErrorWithAlt x (Result w) rs alt vals)
   \<and> Data (snd (ResultAny_Return w s)) = Data w
   \<and> Data (fst (ResultAny_Return w s)) = Data w
   \<and> Result (snd (ResultAny_Return w s)) = fst (Return (Result w) s)"
    by (simp add: ResultAny_AddInfo_def ResultAny_AddWarning_def ResultAny_AddError_def
      ResultAny_AddErr_def ResultAny_AddSuccess_def ResultAny_Stuff_def
      ResultAny_AddErrWithAlt_def ResultAny_AddErrorWithAlt_def ResultAny_Return_def Let_def)
  have early: "Data (snd (ResultAny_AddInfo_early x w f a)) = Data w
   \<and> Data (fst (ResultAny_AddInfo_early x w f a)) = Data w
   \<and> Result (snd (ResultAny_AddInfo_early x w f a)) = fst (AddInfo_early x (Result w) f a)
   \<and> Data (snd (ResultAny_AddWarning_early x w f a)) = Data w
   \<and> Data (fst (ResultAny_AddWarning_early x w f a)) = Data w
   \<and> Result (snd (ResultAny_AddWarning_early x w f a))
        = fst (AddWarning_early x (Result w) f a)
   \<and> Data (snd (ResultAny_AddError_early x w f a)) = Data w
   \<and> Data (fst (ResultAny_AddError_early x w f a)) = Data w
   \<and> Result (snd (ResultAny_AddError_early x w f a)) = fst (AddError_early x (Result w) f a)
   \<and> Data (snd (ResultAny_AddSuccess_early x w f a)) = Data w
   \<and> Data (fst (ResultAny_AddSuccess_early x w f a)) = Data w
   \<and> Result (snd (ResultAny_AddSuccess_early x w f a))
        = fst (AddSuccess_early x (Result w) f a)"
    by (simp add: ResultAny_AddInfo_early_def ResultAny_AddWarning_early_def
        ResultAny_AddError_early_def ResultAny_AddSuccess_early_def Let_def)
  have err_returning: "ResultAny_AddErr_early x w err = Inr (w1, w2) \<longrightarrow>
        Data w1 = Data w \<and> Data w2 = Data w
        \<and> AddErr_early x (Result w) err = Inr (Result w1, Result w1)
        \<and> Result w2 = Result w1"
    by (cases err)
      (auto simp: ResultAny_AddErr_early_def AddErr_early_def Let_def)
  have err_panics: "(ResultAny_AddErr_early x w err = Inl NilDereference) = (err = None)"
    by (cases err) (simp_all add: ResultAny_AddErr_early_def AddErr_early_def Let_def)
  have alt_returning: "ResultAny_AddErrWithAlt_early x w err alt vals = Inr (w1, w2) \<longrightarrow>
        Data w1 = Data w \<and> Data w2 = Data w
        \<and> AddErrWithAlt_early x (Result w) err alt vals = Inr (Result w1, Result w1)
        \<and> Result w2 = Result w1"
    by (cases err)
      (auto simp: ResultAny_AddErrWithAlt_early_def AddErrWithAlt_early_def AddErr_early_def
        AddError_early_def Let_def)
  have alt_returns: "ResultAny_AddErrWithAlt_early x w err alt vals \<noteq> Inl NilDereference"
    using AddErrWithAlt_early_returns [of x "Result w" err alt vals]
    by (simp add: ResultAny_AddErrWithAlt_early_def split: sum.split)
  from later early err_returning err_panics alt_returning alt_returns show ?thesis
    by blast
qed

theorem C9_wrapper_keeps_payload_witness:
  "ResultAny_AddErr_early linux_handler boxed (Some ''boom'') = Inr (boxed_boom, boxed_boom)
   \<and> ResultAny_AddErrWithAlt_early linux_handler boxed (Some ''boom'') ''alt'' []
       = Inr (boxed_boom, boxed_boom)
   \<and> Data boxed = 42
   \<and> Data boxed_boom = 42
   \<and> AddErr_early linux_handler (Result boxed) (Some ''boom'')
       = Inr (Result boxed_boom, Result boxed_boom)
   \<and> Log_Notes (ln (Result boxed_boom))
       = [\<lparr>note_Type = Error, note_Message = ''boom'', note_Prefix = []\<rparr>]
   \<and> ResultAny_AddErr_early linux_handler boxed None = Inl NilDereference"
proof -
  have ret: "ResultAny_AddErr_early linux_handler boxed (Some ''boom'')
      = Inr (boxed_boom, boxed_boom)"
    by (simp add: ResultAny_AddErr_early_def AddErr_early_def boxed_def boxed_boom_def Let_def)
  have alt: "ResultAny_AddErrWithAlt_early linux_handler boxed (Some ''boom'') ''alt'' []
      = Inr (boxed_boom, boxed_boom)"
    by (simp add: ResultAny_AddErrWithAlt_early_def AddErrWithAlt_early_def AddErr_early_def
        boxed_def boxed_boom_def Let_def)
  have data: "Data boxed = 42" "Data boxed_boom = 42"
    by (simp_all add: boxed_def boxed_boom_def)
  have log: "Log_Notes (ln (Result boxed_boom))
       = [\<lparr>note_Type = Error, note_Message = ''boom'', note_Prefix = []\<rparr>]"
    by (simp add: boxed_boom_def AddError_early_def updateMessage_eq log_defs Result_zero_def
        linux_handler_def Let_def)
  from C9_wrapper_keeps_payload
      [of linux_handler boxed _ _ "Some ''boom''" _ "''alt''" "[]" _ boxed_boom boxed_boom]
    C9_wrapper_keeps_payload [of linux_handler boxed _ _ None]
    ret alt data log
  show ?thesis by simp
qed

text \<open>
  C10. For every envelope and every status \<open>s\<close>, \<^verbatim>\<open>Return(s)\<close> sets the \<^verbatim>\<open>Status\<close> field to
  \<open>s\<close> and changes no other field, and the value it returns equals the receiver after the
  call.
\<close>

theorem C10_Return_frame:
  "Status (fst (Return r s)) = s
   \<and> Messages (fst (Return r s)) = Messages r
   \<and> ln (fst (Return r s)) = ln r
   \<and> Operation (fst (Return r s)) = Operation r
   \<and> Prefix (fst (Return r s)) = Prefix r
   \<and> FocusControl (fst (Return r s)) = FocusControl r
   \<and> initFc (fst (Return r s)) = initFc r
   \<and> eventVerb (fst (Return r s)) = eventVerb r
   \<and> TaskID (fst (Return r s)) = TaskID r
   \<and> WorkerID (fst (Return r s)) = WorkerID r
   \<and> Page (fst (Return r s)) = Page r
   \<and> PageCount (fst (Return r s)) = PageCount r
   \<and> PageSize (fst (Return r s)) = PageSize r
   \<and> Tag (fst (Return r s)) = Tag r
   \<and> osIsWin (fst (Return r s)) = osIsWin r
   \<and> useOperationInMsg (fst (Return r s)) = useOperationInMsg r
   \<and> fst (Return r s) = r\<lparr>Status := s\<rparr>
   \<and> snd (Return r s) = fst (Return r s)"
  by (simp add: Return_def Let_def)

end
